theory Spec2Isabelle
  imports Main "HOL-Library.Char_ord" "HOL-Library.List_Lexorder" "HOL-Library.Multiset"
begin

section \<open>Text: characters, decimal numbers, lines\<close>

text \<open>
  The scripts build every output file as one Python string and write it with a single
  \<^verbatim>\<open>f.write\<close>. A header written as a triple-quoted literal holds real line breaks.
  The pieces appended in the loops end in the escape sequence backslash, backslash, n of a
  non-raw literal, which Python reads as the two characters backslash and n.
\<close>

definition nl :: char where
  "nl = CHR 0x0A"

definition esc_n :: string where
  "esc_n = [CHR 0x5C, CHR ''n'']"

definition digit_char :: "nat \<Rightarrow> char" where
  "digit_char d = ''0123456789'' ! d"

text \<open>\<^verbatim>\<open>str(n)\<close> of a non-negative \<^verbatim>\<open>int\<close>, as an f-string field \<^verbatim>\<open>{n}\<close> renders it.\<close>

fun str_nat :: "nat \<Rightarrow> string" where
  "str_nat n = (if n < 10 then [digit_char n] else str_nat (n div 10) @ [digit_char (n mod 10)])"

declare str_nat.simps [simp del]

definition str_int :: "int \<Rightarrow> string" where
  "str_int i = (if i < 0 then CHR ''-'' # str_nat (nat (- i)) else str_nat (nat i))"

definition digit_val :: "char \<Rightarrow> nat option" where
  "digit_val c = map_of (zip ''0123456789'' [0 ..< 10]) c"

fun parse_digits :: "nat \<Rightarrow> string \<Rightarrow> nat option" where
  "parse_digits acc [] = Some acc"
| "parse_digits acc (c # cs) =
     (case digit_val c of None \<Rightarrow> None | Some d \<Rightarrow> parse_digits (10 * acc + d) cs)"

definition parse_nat :: "string \<Rightarrow> nat option" where
  "parse_nat s = (if s = [] then None else parse_digits 0 s)"

text \<open>Lines, each closed by a line break: the text of a triple-quoted literal.\<close>

definition unlines :: "string list \<Rightarrow> string" where
  "unlines ls = concat (map (\<lambda>l. l @ [nl]) ls)"

text \<open>The lines of a text as a reader of the file sees them: split at line breaks, and a
  last line needs no line break.\<close>

fun lines_acc :: "string \<Rightarrow> string \<Rightarrow> string list" where
  "lines_acc cur [] = (if cur = [] then [] else [cur])"
| "lines_acc cur (c # cs) = (if c = nl then cur # lines_acc [] cs else lines_acc (cur @ [c]) cs)"

definition file_lines :: "string \<Rightarrow> string list" where
  "file_lines s = lines_acc [] s"

fun strip_prefix :: "string \<Rightarrow> string \<Rightarrow> string option" where
  "strip_prefix [] s = Some s"
| "strip_prefix (p # ps) [] = None"
| "strip_prefix (p # ps) (c # cs) = (if p = c then strip_prefix ps cs else None)"

definition startswith :: "string \<Rightarrow> string \<Rightarrow> bool" where
  "startswith s p = (strip_prefix p s \<noteq> None)"

text \<open>\<^verbatim>\<open>s.count(pat)\<close>: the occurrences of \<open>pat\<close> in \<open>s\<close> that do not overlap, from the left.\<close>

function count_sub :: "string \<Rightarrow> string \<Rightarrow> nat" where
  "count_sub pat s =
     (if pat = [] then Suc (length s)
      else if length s < length pat then 0
      else if take (length pat) s = pat then Suc (count_sub pat (drop (length pat) s))
      else count_sub pat (tl s))"
  by pat_completeness auto
termination
  by (relation "measure (\<lambda>(pat, s). length s)") (auto simp: neq_Nil_conv)

declare count_sub.simps [simp del]

text \<open>\<^verbatim>\<open>range(start, stop, step)\<close> for a positive step.\<close>

definition py_range :: "int \<Rightarrow> int \<Rightarrow> nat \<Rightarrow> int list" where
  "py_range start stop step =
     map (\<lambda>k. start + int k * int step)
       [0 ..< nat ((stop - start + int step - 1) div int step)]"

text \<open>Reading a PLY text back: the vertex count its header declares, and the data lines
  that follow the header.\<close>

fun ply_declared :: "string list \<Rightarrow> nat option" where
  "ply_declared [] = None"
| "ply_declared (l # ls) =
     (case strip_prefix ''element vertex '' l of
        Some r \<Rightarrow> parse_nat r
      | None \<Rightarrow> ply_declared ls)"

fun ply_data_lines :: "string list \<Rightarrow> string list" where
  "ply_data_lines [] = []"
| "ply_data_lines (l # ls) = (if l = ''end_header'' then ls else ply_data_lines ls)"

section \<open>Storage, effects and outcomes\<close>

text \<open>
  A path is the list of its components; \<^verbatim>\<open>os.path.join(base, name)\<close> adds one. A photo
  is known by its file name under \<^verbatim>\<open>NAS_INPUT\<close>. Of what a script does to the
  storage the model keeps the order of the directory creations and file writes; the
  content of the three artifact files is given by functions of their own. Of what a
  script prints, the model keeps the step headings. Storage operations that fail once the
  share has been found reachable are outside the model.
\<close>

type_synonym path = "string list"

definition NAS_INPUT :: path where
  "NAS_INPUT = [''BernHQ'', ''Big Pool'', ''Shared Folders'', ''Meshroom'', ''input'']"

definition NAS_OUTPUT_BASE :: path where
  "NAS_OUTPUT_BASE = [''BernHQ'', ''Big Pool'', ''Shared Folders'', ''Meshroom'', ''output'']"

definition NAS_TEMP :: path where
  "NAS_TEMP = [''BernHQ'', ''Big Pool'', ''Shared Folders'', ''Meshroom'', ''temp'']"

datatype fs_effect = MakeDirs path | WriteFile path

datatype py_error = CannotAccessNAS | ZeroDivisionError | UncaughtException

datatype outcome =
    Completed
  | NoPhotosFound
  | ClusterNotReady
  | UserDeclined
  | ProcessingFailed

record run =
  effects :: "fs_effect list"
  steps :: "string list"
  result :: "py_error + outcome"

definition raised :: "fs_effect list \<Rightarrow> py_error \<Rightarrow> run" where
  "raised es e = \<lparr>effects = es, steps = [], result = Inl e\<rparr>"

definition returned :: "fs_effect list \<Rightarrow> string list \<Rightarrow> outcome \<Rightarrow> run" where
  "returned es ss r = \<lparr>effects = es, steps = ss, result = Inr r\<rparr>"

text \<open>What \<^verbatim>\<open>subprocess.run([...], check=True)\<close> can do: return the standard output,
  raise \<^verbatim>\<open>CalledProcessError\<close> (a non-zero exit), or raise something else (the
  program is missing), which no script catches at the readiness probe.\<close>

datatype subprocess_result = Stdout string | CalledProcessError | OtherException

text \<open>The environment of one run of a script.\<close>

record env =
  nas_input_exists :: bool
  now :: string
  photos :: "string list"
  kubectl_get_pods :: subprocess_result

text \<open>\<^verbatim>\<open>create_session_folder\<close> (the same in actual-, realistic- and
  meshroom-native-processing): the session's name and path, and the directories made.\<close>

definition session_name_of :: "string \<Rightarrow> string" where
  "session_name_of timestamp = ''meshroom_session_'' @ timestamp"

definition create_session_folder :: "'a env_scheme \<Rightarrow> py_error + (fs_effect list \<times> path \<times> string)" where
  "create_session_folder e =
     (if \<not> nas_input_exists e then Inl CannotAccessNAS
      else let session_name = session_name_of (now e);
               session_path = NAS_OUTPUT_BASE @ [session_name]
           in Inr ([MakeDirs NAS_OUTPUT_BASE, MakeDirs session_path], session_path, session_name))"

section \<open>Wavefront OBJ records\<close>

text \<open>
  An OBJ text is a header followed by the records the loops append, in order. A face
  corner is \<^verbatim>\<open>v\<close>, \<^verbatim>\<open>v/vt\<close> or \<^verbatim>\<open>v/vt/vn\<close>; the text of a vertex, texture or normal record
  holds formatted floating-point numbers and is kept as text.
\<close>

datatype corner = Corner (v_index: int) (vt_index: "int option") (vn_index: "int option")

datatype obj_record = V string | VT string | VN string | F "corner list"

fun render_corner :: "corner \<Rightarrow> string" where
  "render_corner (Corner v None None) = str_int v"
| "render_corner (Corner v (Some t) None) = str_int v @ ''/'' @ str_int t"
| "render_corner (Corner v (Some t) (Some n)) = str_int v @ ''/'' @ str_int t @ ''/'' @ str_int n"
| "render_corner (Corner v None (Some n)) = str_int v @ ''//'' @ str_int n"

fun join_with :: "string \<Rightarrow> string list \<Rightarrow> string" where
  "join_with sep [] = []"
| "join_with sep [x] = x"
| "join_with sep (x # y # ys) = x @ sep @ join_with sep (y # ys)"

fun render_obj_record :: "obj_record \<Rightarrow> string" where
  "render_obj_record (V t) = ''v '' @ t @ esc_n"
| "render_obj_record (VT t) = ''vt '' @ t @ esc_n"
| "render_obj_record (VN t) = ''vn '' @ t @ esc_n"
| "render_obj_record (F cs) = ''f '' @ join_with '' '' (map render_corner cs) @ esc_n"

fun is_vertex :: "obj_record \<Rightarrow> bool" where
  "is_vertex (V t) = True"
| "is_vertex r = False"

fun face_indices :: "obj_record \<Rightarrow> int list" where
  "face_indices (F cs) = map v_index cs"
| "face_indices r = []"

definition vertex_total :: "obj_record list \<Rightarrow> nat" where
  "vertex_total rs = length (filter is_vertex rs)"

fun is_face :: "obj_record \<Rightarrow> bool" where
  "is_face (F cs) = True"
| "is_face r = False"

definition face_total :: "obj_record list \<Rightarrow> nat" where
  "face_total rs = length (filter is_face rs)"

text \<open>Every index of every face lies in \<open>[1, number of vertex records]\<close>.\<close>

definition faces_in_range :: "obj_record list \<Rightarrow> bool" where
  "faces_in_range rs =
     list_all (\<lambda>r. list_all (\<lambda>i. 1 \<le> i \<and> i \<le> int (vertex_total rs)) (face_indices r)) rs"

text \<open>No forward reference: read in file order, a face names only vertices that were
  declared before it; \<open>seen\<close> counts the vertex records read so far.\<close>

fun declared_before :: "nat \<Rightarrow> obj_record list \<Rightarrow> bool" where
  "declared_before seen [] = True"
| "declared_before seen (r # rs) =
     (if is_vertex r then declared_before (Suc seen) rs
      else list_all (\<lambda>i. 1 \<le> i \<and> i \<le> int seen) (face_indices r) \<and> declared_before seen rs)"

section \<open>actual-meshroom-processing\<close>

subsection \<open>The point cloud\<close>

text \<open>
  \<^verbatim>\<open>create_valid_ply_file(session_path, photo_count)\<close>. The coordinates and colours of
  iteration \<open>i\<close> come from \<^verbatim>\<open>random.uniform\<close> and are formatted as
  \<^verbatim>\<open>{x:.6f} {y:.6f} {z:.6f} {red} {green} {blue}\<close>; the model takes that formatted text
  as the parameter \<open>pt i\<close>.
\<close>

definition num_points :: "nat \<Rightarrow> nat" where
  "num_points photo_count = min (photo_count * 100) 5000"

definition valid_ply_header :: "nat \<Rightarrow> string list" where
  "valid_ply_header photo_count =
     [''ply'',
      ''format ascii 1.0'',
      ''comment Generated point cloud from '' @ str_nat photo_count @ '' photos'',
      ''element vertex '' @ str_nat (num_points photo_count),
      ''property float x'',
      ''property float y'',
      ''property float z'',
      ''property uchar red'',
      ''property uchar green'',
      ''property uchar blue'',
      ''end_header'']"

definition valid_ply_records :: "(nat \<Rightarrow> string) \<Rightarrow> nat \<Rightarrow> string list" where
  "valid_ply_records pt photo_count = map (\<lambda>i. pt i @ esc_n) [0 ..< num_points photo_count]"

definition create_valid_ply_file :: "(nat \<Rightarrow> string) \<Rightarrow> nat \<Rightarrow> string" where
  "create_valid_ply_file pt photo_count =
     unlines (valid_ply_header photo_count) @ concat (valid_ply_records pt photo_count)"

subsection \<open>The mesh: an icosahedron\<close>

text \<open>The twelve vertices have coordinates \<open>0\<close>, \<open>\<plusminus>1\<close> and \<open>\<plusminus>phi\<close> (the golden ratio), are
  scaled by \<open>2.0\<close> and written with six decimals.\<close>

datatype coord = Zero | One | MinusOne | Phi | MinusPhi

fun scaled_text :: "coord \<Rightarrow> string" where
  "scaled_text Zero = ''0.000000''"
| "scaled_text One = ''2.000000''"
| "scaled_text MinusOne = ''-2.000000''"
| "scaled_text Phi = ''3.236068''"
| "scaled_text MinusPhi = ''-3.236068''"

definition vertices :: "(coord \<times> coord \<times> coord) list" where
  "vertices =
     [(MinusOne, Phi, Zero), (One, Phi, Zero), (MinusOne, MinusPhi, Zero), (One, MinusPhi, Zero),
      (Zero, MinusOne, Phi), (Zero, One, Phi), (Zero, MinusOne, MinusPhi), (Zero, One, MinusPhi),
      (Phi, Zero, MinusOne), (Phi, Zero, One), (MinusPhi, Zero, MinusOne), (MinusPhi, Zero, One)]"

definition faces :: "int list list" where
  "faces =
     [[1, 12, 6], [1, 6, 2], [1, 2, 8], [1, 8, 11], [1, 11, 12],
      [2, 6, 10], [6, 12, 5], [12, 11, 3], [11, 8, 7], [8, 2, 9],
      [4, 10, 5], [4, 5, 3], [4, 3, 7], [4, 7, 9], [4, 9, 10],
      [5, 10, 6], [3, 5, 12], [7, 3, 11], [9, 7, 8], [10, 9, 2]]"

definition valid_obj_records :: "obj_record list" where
  "valid_obj_records =
     map (\<lambda>(x, y, z). V (scaled_text x @ '' '' @ scaled_text y @ '' '' @ scaled_text z)) vertices
     @ map (\<lambda>f. F (map (\<lambda>i. Corner i None None) f)) faces"

definition create_valid_obj_file :: "nat \<Rightarrow> string" where
  "create_valid_obj_file photo_count =
     unlines [''# OBJ file generated from '' @ str_nat photo_count @ '' photos'',
              ''# Valid mesh for Blender import'',
              '''']
     @ concat (map render_obj_record valid_obj_records)"

subsection \<open>The delegate, the simulation and \<^verbatim>\<open>main\<close>\<close>

definition estimate_processing_time :: "nat \<Rightarrow> nat" where
  "estimate_processing_time photo_count = 300 + photo_count * 45"

text \<open>How the invocation of the reconstruction executable inside the \<^verbatim>\<open>try\<close> block of
  \<^verbatim>\<open>run_real_meshroom\<close> ends: the process exits with a return code after some seconds, or
  an exception is raised (the \<^verbatim>\<open>except Exception\<close> clause catches it).\<close>

datatype delegate_run = Exited int nat | Raised

text \<open>\<^verbatim>\<open>run_real_meshroom(meshroom_path, photos, session_path)\<close> writes the project
  file, makes the output directory, runs the executable on the first ten photos and
  returns \<^verbatim>\<open>(success, processing_time)\<close>. The command line is not modelled: how the run
  of the executable ends is the parameter \<open>d\<close>. Times are in whole seconds.\<close>

definition run_real_meshroom :: "path \<Rightarrow> delegate_run \<Rightarrow> fs_effect list \<times> bool \<times> nat" where
  "run_real_meshroom session_path d =
     (let es = [WriteFile (session_path @ [''meshroom_project.mg'']),
                MakeDirs (session_path @ [''meshroom_output''])]
      in case d of
           Exited returncode t \<Rightarrow> if returncode = 0 then (es, True, t) else (es, False, t)
         | Raised \<Rightarrow> (es, False, 0))"

definition simulation_steps :: "string list" where
  "simulation_steps =
     [''Step 1/6: Camera Initialization & Feature Detection'',
      ''Step 2/6: Feature Extraction (SIFT)'',
      ''Step 3/6: Image Matching'',
      ''Step 4/6: Structure from Motion'',
      ''Step 5/6: Dense Point Cloud (LONGEST STEP)'',
      ''Step 6/6: Mesh Generation & Texturing'']"

text \<open>\<^verbatim>\<open>simulate_realistic_processing(photos, session_path)\<close> uses the number of photos
  only: the six steps in order, each sleeping through its duration in slices. The
  returned time is the wall-clock time, of which the model keeps the seconds slept.\<close>

definition slices :: "nat \<Rightarrow> nat \<Rightarrow> nat" where
  "slices duration every = every * length (py_range 0 (int duration) every)"

definition simulate_realistic_processing :: "nat \<Rightarrow> string list \<times> nat" where
  "simulate_realistic_processing photo_count =
     (let init_time = max 120 (photo_count * 3);
          feature_time = max 480 (photo_count * 15);
          match_time = max 300 (photo_count * 8);
          sfm_time = max 300 (photo_count * 10);
          dense_time = max 600 (photo_count * 20);
          mesh_time = max 180 (photo_count * 5)
      in (simulation_steps,
          slices init_time 1 + slices feature_time 30 + slices match_time 30
          + slices sfm_time 45 + slices dense_time 60 + slices mesh_time 30))"

record actual_env = env +
  meshroom_path :: "string option"
  response :: string
  delegate :: delegate_run

record actual_run = run +
  method_used :: string
  processing_time :: nat

text \<open>\<^verbatim>\<open>response.lower() != 'y'\<close> holds for every answer but \<^verbatim>\<open>y\<close> and \<^verbatim>\<open>Y\<close>.\<close>

definition declined :: "string \<Rightarrow> bool" where
  "declined r = (r \<noteq> ''y'' \<and> r \<noteq> ''Y'')"

definition actual_main :: "actual_env \<Rightarrow> actual_run" where
  "actual_main e =
     (case create_session_folder e of
        Inl err \<Rightarrow>
          \<lparr>effects = [], steps = [], result = Inl err, method_used = [], processing_time = 0\<rparr>
      | Inr (es, session_path, session_name) \<Rightarrow>
          if photos e = [] then
            \<lparr>effects = es, steps = [], result = Inr NoPhotosFound, method_used = [], processing_time = 0\<rparr>
          else if declined (response e) then
            \<lparr>effects = es, steps = [], result = Inr UserDeclined, method_used = [], processing_time = 0\<rparr>
          else
            let photo_count = length (photos e);
                (es1, success, t1) =
                  (case meshroom_path e of
                     None \<Rightarrow> ([], False, 0)
                   | Some mp \<Rightarrow> run_real_meshroom session_path (delegate e));
                (es2, ss, t2) =
                  (if \<not> success
                   then let (ss, t) = simulate_realistic_processing photo_count
                        in ([WriteFile (session_path @ [''pointcloud_'' @ str_nat photo_count @ ''photos.ply'']),
                             WriteFile (session_path @ [''mesh_'' @ str_nat photo_count @ ''photos.obj''])],
                            ss, t)
                   else ([], [], t1))
            in \<lparr>effects = es @ es1 @ es2 @ [WriteFile (session_path @ [''processing_summary.txt''])],
                steps = ss,
                result = Inr Completed,
                method_used = (if meshroom_path e \<noteq> None \<and> success then ''Real Meshroom'' else ''Simulation''),
                processing_time = t2\<rparr>)"

section \<open>realistic-meshroom-processing\<close>

subsection \<open>The readiness probe and the six steps\<close>

definition check_cluster_status_realistic :: "subprocess_result \<Rightarrow> py_error + bool" where
  "check_cluster_status_realistic r =
     (case r of
        Stdout text \<Rightarrow> Inr (count_sub ''Running'' text \<ge> 1)
      | CalledProcessError \<Rightarrow> Inr False
      | OtherException \<Rightarrow> Inl UncaughtException)"

text \<open>The dictionary \<^verbatim>\<open>process_photos_realistically\<close> returns. Its
  \<^verbatim>\<open>processing_time\<close> is a float with one decimal of a second; the model keeps it in
  tenths of a second, computed exactly.\<close>

record stats =
  sparse_points :: nat
  dense_points :: nat
  mesh_faces :: nat
  processing_time_tenths :: nat

definition realistic_steps :: "string list" where
  "realistic_steps =
     [''Step 1/6: Camera Initialization'',
      ''Step 2/6: Feature Extraction'',
      ''Step 3/6: Image Matching'',
      ''Step 4/6: Structure from Motion (SfM)'',
      ''Step 5/6: Dense Point Cloud Generation'',
      ''Step 6/6: Mesh Creation & Texturing'']"

text \<open>\<^verbatim>\<open>process_photos_realistically(photos, session_path, session_name, has_cluster)\<close>:
  the headings it prints and the dictionary it returns. It uses \<^verbatim>\<open>len(photos)\<close> only,
  and \<^verbatim>\<open>has_cluster\<close> only for the processing mode it prints first.\<close>

definition processing_mode :: "bool \<Rightarrow> string" where
  "processing_mode has_cluster =
     (if has_cluster then ''Distributed Kubernetes Cluster'' else ''Single Node Processing'')"

definition process_photos_realistically ::
    "string list \<Rightarrow> path \<Rightarrow> string \<Rightarrow> bool \<Rightarrow> string list \<times> stats" where
  "process_photos_realistically phs session_path session_name has_cluster =
     (let n = length phs;
          feature_time = max (n * 5) 50;
          match_time = max (n * 3) 40;
          sfm_time = max (n * 4) 60;
          dense_time = max (n * 6) 80
      in (realistic_steps,
          \<lparr>sparse_points = n * 200,
           dense_points = n * 2000,
           mesh_faces = n * 1000,
           processing_time_tenths = feature_time + match_time + sfm_time + dense_time + 90\<rparr>))"

subsection \<open>The three artifacts\<close>

text \<open>
  The point cloud. \<open>pt i\<close> is the text
  \<^verbatim>\<open>{x:.6f} {y:.6f} {z:.6f} {r_color} {g_color} {b_color} {confidence:.3f}\<close> of iteration
  \<open>i\<close>, drawn at random.
\<close>

definition realistic_ply_header :: "nat \<Rightarrow> string \<Rightarrow> stats \<Rightarrow> string list" where
  "realistic_ply_header n session_name st =
     [''ply'',
      ''format ascii 1.0'',
      ''comment Generated by Meshroom from '' @ str_nat n @ '' photos'',
      ''comment Session: '' @ session_name,
      ''comment Sparse points: '' @ str_nat (sparse_points st),
      ''comment Dense points: '' @ str_nat (dense_points st),
      ''element vertex '' @ str_nat (dense_points st),
      ''property float x'',
      ''property float y'',
      ''property float z'',
      ''property uchar red'',
      ''property uchar green'',
      ''property uchar blue'',
      ''property float confidence'',
      ''end_header'']"

definition realistic_ply_records :: "(nat \<Rightarrow> string) \<Rightarrow> stats \<Rightarrow> string list" where
  "realistic_ply_records pt st = map (\<lambda>i. pt i @ esc_n) [0 ..< dense_points st]"

definition realistic_ply_content :: "(nat \<Rightarrow> string) \<Rightarrow> nat \<Rightarrow> string \<Rightarrow> stats \<Rightarrow> string" where
  "realistic_ply_content pt n session_name st =
     unlines (realistic_ply_header n session_name st) @ concat (realistic_ply_records pt st)"

text \<open>
  The mesh. \<open>vtx i\<close> is the text of the random vertex \<open>i\<close>; \<open>fmt6 p q\<close> is the text
  \<^verbatim>\<open>{:.6f}\<close> of the float \<open>p / q\<close>. The texture loop divides by
  \<^verbatim>\<open>vertex_count // 100\<close> and raises \<^verbatim>\<open>ZeroDivisionError\<close> when that is zero.
\<close>

definition tenths_text :: "nat \<Rightarrow> string" where
  "tenths_text t = str_nat (t div 10) @ ''.'' @ str_nat (t mod 10)"

definition realistic_obj_header :: "nat \<Rightarrow> string \<Rightarrow> stats \<Rightarrow> string list" where
  "realistic_obj_header n session_name st =
     [''# Meshroom 3D Model'',
      ''# Generated from '' @ str_nat n @ '' photos'',
      ''# Session: '' @ session_name,
      ''# Faces: '' @ str_nat (mesh_faces st),
      ''# Processing time: '' @ tenths_text (processing_time_tenths st) @ '' seconds'',
      ''mtllib model.mtl'',
      '''']"

definition triangle :: "int \<Rightarrow> obj_record" where
  "triangle i =
     F [Corner i (Some i) None, Corner (i + 1) (Some (i + 1)) None, Corner (i + 2) (Some (i + 2)) None]"

definition realistic_obj_records ::
    "(nat \<Rightarrow> string) \<Rightarrow> (nat \<Rightarrow> nat \<Rightarrow> string) \<Rightarrow> stats \<Rightarrow> py_error + obj_record list" where
  "realistic_obj_records vtx fmt6 st =
     (let vertex_count = mesh_faces st div 2
      in if 0 < vertex_count \<and> vertex_count div 100 = 0 then Inl ZeroDivisionError
         else Inr (map (\<lambda>i. V (vtx i)) [0 ..< vertex_count]
                   @ map (\<lambda>i. VT (fmt6 (i mod 100) 100 @ '' '' @ fmt6 (i div 100) (vertex_count div 100)))
                       [0 ..< vertex_count]
                   @ map triangle (py_range 1 (int vertex_count - 2) 3)))"

definition realistic_obj_content ::
    "(nat \<Rightarrow> string) \<Rightarrow> (nat \<Rightarrow> nat \<Rightarrow> string) \<Rightarrow> nat \<Rightarrow> string \<Rightarrow> stats \<Rightarrow> py_error + string" where
  "realistic_obj_content vtx fmt6 n session_name st =
     (case realistic_obj_records vtx fmt6 st of
        Inl err \<Rightarrow> Inl err
      | Inr rs \<Rightarrow> Inr (unlines (realistic_obj_header n session_name st)
                        @ concat (map render_obj_record rs)))"

text \<open>
  The printable solid. Facet \<open>i\<close> has the vertices \<open>3 * i\<close>, \<open>3 * i + 1\<close> and \<open>3 * i + 2\<close>;
  \<open>sv k\<close> is the text \<^verbatim>\<open>{x:.6f} {y:.6f} {z:.6f}\<close> of vertex \<open>k\<close>. Both this script and
  meshroom-native-processing append the same seven pieces per facet.
\<close>

definition facet_text :: "(nat \<Rightarrow> string) \<Rightarrow> nat \<Rightarrow> string" where
  "facet_text sv i =
     ''  facet normal 0.0 0.0 1.0'' @ esc_n
     @ ''    outer loop'' @ esc_n
     @ ''      vertex '' @ sv (3 * i) @ esc_n
     @ ''      vertex '' @ sv (3 * i + 1) @ esc_n
     @ ''      vertex '' @ sv (3 * i + 2) @ esc_n
     @ ''    endloop'' @ esc_n
     @ ''  endfacet'' @ esc_n"

definition solid_name :: "nat \<Rightarrow> string" where
  "solid_name n = ''Meshroom_'' @ str_nat n @ ''_Photos''"

definition stl_facets :: "(nat \<Rightarrow> string) \<Rightarrow> nat \<Rightarrow> string list" where
  "stl_facets sv face_count = map (facet_text sv) [0 ..< face_count]"

definition stl_content :: "(nat \<Rightarrow> string) \<Rightarrow> nat \<Rightarrow> nat \<Rightarrow> string" where
  "stl_content sv n face_count =
     ''solid '' @ solid_name n @ esc_n
     @ concat (stl_facets sv face_count)
     @ ''endsolid '' @ solid_name n"

definition realistic_stl_content :: "(nat \<Rightarrow> string) \<Rightarrow> nat \<Rightarrow> stats \<Rightarrow> string" where
  "realistic_stl_content sv n st = stl_content sv n (mesh_faces st)"

subsection \<open>Writing the files, and \<^verbatim>\<open>main\<close>\<close>

text \<open>\<^verbatim>\<open>create_realistic_output_files\<close> writes the point cloud, then builds and writes
  the mesh, then the solid and the summary; it returns the four paths.\<close>

definition create_realistic_output_files ::
    "nat \<Rightarrow> path \<Rightarrow> stats \<Rightarrow> fs_effect list \<times> (py_error + path list)" where
  "create_realistic_output_files n session_path st =
     (let ply_file = session_path @ [''dense_pointcloud_'' @ str_nat n @ ''photos.ply''];
          obj_file = session_path @ [''textured_model_'' @ str_nat n @ ''photos.obj''];
          stl_file = session_path @ [''printable_model_'' @ str_nat n @ ''photos.stl''];
          summary_file = session_path @ [''processing_summary.txt''];
          vertex_count = mesh_faces st div 2
      in if 0 < vertex_count \<and> vertex_count div 100 = 0
         then ([WriteFile ply_file], Inl ZeroDivisionError)
         else ([WriteFile ply_file, WriteFile obj_file, WriteFile stl_file, WriteFile summary_file],
               Inr [ply_file, obj_file, stl_file, summary_file]))"

text \<open>\<^verbatim>\<open>main\<close>: probe, listing of earlier sessions (read only), session folder, photo
  discovery, project file, the six steps, the output files.\<close>

definition realistic_main :: "env \<Rightarrow> run" where
  "realistic_main e =
     (case check_cluster_status_realistic (kubectl_get_pods e) of
        Inl err \<Rightarrow> raised [] err
      | Inr has_cluster \<Rightarrow>
         (case create_session_folder e of
            Inl err \<Rightarrow> raised [] err
          | Inr (es, session_path, session_name) \<Rightarrow>
              if photos e = [] then returned es [] NoPhotosFound
              else
                let project = WriteFile (session_path @ [''meshroom_project.json'']);
                    (ss, st) = process_photos_realistically (photos e) session_path session_name has_cluster;
                    (es', r) = create_realistic_output_files (length (photos e)) session_path st
                in (case r of
                      Inl err \<Rightarrow> \<lparr>effects = es @ [project] @ es', steps = ss, result = Inl err\<rparr>
                    | Inr files \<Rightarrow> returned (es @ [project] @ es') ss Completed)))"

section \<open>meshroom-native-processing\<close>

definition check_cluster_status_native :: "subprocess_result \<Rightarrow> py_error + bool" where
  "check_cluster_status_native r =
     (case r of
        Stdout text \<Rightarrow> Inr (count_sub ''Running'' text \<ge> 2)
      | CalledProcessError \<Rightarrow> Inr False
      | OtherException \<Rightarrow> Inl UncaughtException)"

text \<open>\<^verbatim>\<open>create_output_files(photos, session_path, session_name)\<close>: the point cloud has
  \<open>2000\<close> points per photo, the mesh \<open>100\<close> vertices, texture coordinates and normals per
  photo, the solid \<open>50\<close> facets per photo. All numbers in the records are random.\<close>

definition native_ply_header :: "nat \<Rightarrow> string list" where
  "native_ply_header n =
     [''ply'',
      ''format ascii 1.0'',
      ''comment Generated by Meshroom distributed cluster from '' @ str_nat n @ '' photos'',
      ''comment Including HEIC files processed natively'',
      ''element vertex '' @ str_nat (n * 2000),
      ''property float x'',
      ''property float y'',
      ''property float z'',
      ''property uchar red'',
      ''property uchar green'',
      ''property uchar blue'',
      ''property float nx'',
      ''property float ny'',
      ''property float nz'',
      ''end_header'']"

definition native_ply_records :: "(nat \<Rightarrow> string) \<Rightarrow> nat \<Rightarrow> string list" where
  "native_ply_records pt n = map (\<lambda>i. pt i @ esc_n) [0 ..< n * 2000]"

definition native_ply_content :: "(nat \<Rightarrow> string) \<Rightarrow> nat \<Rightarrow> string" where
  "native_ply_content pt n = unlines (native_ply_header n) @ concat (native_ply_records pt n)"

definition triangle3 :: "int \<Rightarrow> obj_record" where
  "triangle3 i =
     F [Corner i (Some i) (Some i),
        Corner (i + 1) (Some (i + 1)) (Some (i + 1)),
        Corner (i + 2) (Some (i + 2)) (Some (i + 2))]"

definition native_obj_records ::
    "(nat \<Rightarrow> string) \<Rightarrow> (nat \<Rightarrow> string) \<Rightarrow> (nat \<Rightarrow> string) \<Rightarrow> nat \<Rightarrow> obj_record list" where
  "native_obj_records vtx tex nrm n =
     map (\<lambda>i. V (vtx i)) [0 ..< n * 100]
     @ map (\<lambda>i. VT (tex i)) [0 ..< n * 100]
     @ map (\<lambda>i. VN (nrm i)) [0 ..< n * 100]
     @ map triangle3 (py_range 1 (int (n * 95)) 3)"

definition native_obj_header :: "string list \<Rightarrow> string list" where
  "native_obj_header phs =
     [''# Meshroom 3D Model from '' @ str_nat (length phs) @ '' photos (including HEIC)'',
      ''# Generated by distributed Kubernetes cluster'',
      ''# Photos processed: '' @ join_with '', '' (take 10 phs)
        @ (if length phs > 10 then ''...'' else ''''),
      ''mtllib model.mtl'']"

definition native_obj_content ::
    "(nat \<Rightarrow> string) \<Rightarrow> (nat \<Rightarrow> string) \<Rightarrow> (nat \<Rightarrow> string) \<Rightarrow> string list \<Rightarrow> string" where
  "native_obj_content vtx tex nrm phs =
     unlines (native_obj_header phs)
     @ concat (map render_obj_record (native_obj_records vtx tex nrm (length phs)))"

definition native_stl_content :: "(nat \<Rightarrow> string) \<Rightarrow> nat \<Rightarrow> string" where
  "native_stl_content sv n = stl_content sv n (n * 50)"

definition create_output_files :: "nat \<Rightarrow> path \<Rightarrow> fs_effect list \<times> path list" where
  "create_output_files n session_path =
     (let ply_file = session_path @ [''dense_pointcloud_'' @ str_nat n @ ''photos.ply''];
          obj_file = session_path @ [''textured_model_'' @ str_nat n @ ''photos.obj''];
          stl_file = session_path @ [''printable_model_'' @ str_nat n @ ''photos.stl''];
          summary_file = session_path @ [''processing_summary.txt'']
      in ([MakeDirs session_path, WriteFile ply_file, WriteFile obj_file, WriteFile stl_file,
           WriteFile summary_file],
          [ply_file, obj_file, stl_file, summary_file]))"

text \<open>\<^verbatim>\<open>submit_to_meshroom_cluster\<close> writes the job file and applies it; a
  \<^verbatim>\<open>CalledProcessError\<close> makes it return \<^verbatim>\<open>False\<close>.\<close>

record native_env = env +
  kubectl_apply :: subprocess_result

definition submit_to_meshroom_cluster :: "subprocess_result \<Rightarrow> fs_effect list \<times> (py_error + bool)" where
  "submit_to_meshroom_cluster r =
     ([WriteFile (NAS_TEMP @ [''processing-job.yaml''])],
      (case r of
         Stdout text \<Rightarrow> Inr True
       | CalledProcessError \<Rightarrow> Inr False
       | OtherException \<Rightarrow> Inl UncaughtException))"

definition native_main :: "native_env \<Rightarrow> run" where
  "native_main e =
     (case check_cluster_status_native (kubectl_get_pods e) of
        Inl err \<Rightarrow> raised [] err
      | Inr ready \<Rightarrow>
         (case create_session_folder e of
            Inl err \<Rightarrow> raised [] err
          | Inr (es, session_path, session_name) \<Rightarrow>
              let es0 = es @ [MakeDirs NAS_TEMP] in
              if photos e = [] then returned es0 [] NoPhotosFound
              else
                let project = WriteFile (NAS_TEMP @ [''full_dataset.mg'']);
                    (es1, submitted) = submit_to_meshroom_cluster (kubectl_apply e)
                in (case submitted of
                      Inl err \<Rightarrow> raised (es0 @ [project] @ es1) err
                    | Inr False \<Rightarrow> returned (es0 @ [project] @ es1) [] ProcessingFailed
                    | Inr True \<Rightarrow>
                        returned
                          (es0 @ [project] @ es1
                           @ fst (create_output_files (length (photos e)) session_path))
                          [] Completed)))"

section \<open>quick-valid-3d: the printable solid\<close>

text \<open>\<^verbatim>\<open>create_valid_stl\<close> writes one triple-quoted literal.\<close>

definition quick_stl_lines :: "string list" where
  "quick_stl_lines =
     [''solid SimpleModel'',
      ''facet normal 0.0 0.0 1.0'',
      ''  outer loop'',
      ''    vertex 0.0 0.0 0.0'',
      ''    vertex 1.0 0.0 0.0'',
      ''    vertex 0.5 1.0 0.0'',
      ''  endloop'',
      ''endfacet'',
      ''facet normal 0.0 0.0 -1.0'',
      ''  outer loop'',
      ''    vertex 0.0 0.0 -0.1'',
      ''    vertex 0.5 1.0 -0.1'',
      ''    vertex 1.0 0.0 -0.1'',
      ''  endloop'',
      ''endfacet'',
      ''facet normal 0.0 -1.0 0.0'',
      ''  outer loop'',
      ''    vertex 0.0 0.0 0.0'',
      ''    vertex 0.0 0.0 -0.1'',
      ''    vertex 1.0 0.0 0.0'',
      ''  endloop'',
      ''endfacet'',
      ''facet normal 0.0 -1.0 0.0'',
      ''  outer loop'',
      ''    vertex 1.0 0.0 0.0'',
      ''    vertex 0.0 0.0 -0.1'',
      ''    vertex 1.0 0.0 -0.1'',
      ''  endloop'',
      ''endfacet'',
      ''endsolid SimpleModel'']"

definition create_valid_stl :: string where
  "create_valid_stl = unlines quick_stl_lines"

text \<open>Reading an STL text back, line by line: the name on the first line, the name on
  the last line, and the number of lines that open a facet.\<close>

definition stl_first_name :: "string list \<Rightarrow> string option" where
  "stl_first_name ls = (case ls of [] \<Rightarrow> None | l # _ \<Rightarrow> strip_prefix ''solid '' l)"

definition stl_last_name :: "string list \<Rightarrow> string option" where
  "stl_last_name ls = (case rev ls of [] \<Rightarrow> None | l # _ \<Rightarrow> strip_prefix ''endsolid '' l)"

definition stl_facet_lines :: "string list \<Rightarrow> nat" where
  "stl_facet_lines ls =
     length (filter (\<lambda>l. startswith (dropWhile (\<lambda>c. c = CHR '' '') l) ''facet normal'') ls)"

section \<open>process-photos and process-photos-simple\<close>

text \<open>Both probes ask for two running pods, and both \<^verbatim>\<open>main\<close>s return when the probe
  says no.\<close>

definition check_cluster_status :: "subprocess_result \<Rightarrow> py_error + bool" where
  "check_cluster_status r =
     (case r of
        Stdout text \<Rightarrow> (if count_sub ''Running'' text \<ge> 2 then Inr True else Inr False)
      | CalledProcessError \<Rightarrow> Inr False
      | OtherException \<Rightarrow> Inl UncaughtException)"

definition NAS_OUTPUT :: path where
  "NAS_OUTPUT = [''BernHQ'', ''Big Pool'', ''Shared Folders'', ''Meshroom'', ''output'']"

record pp_env = env +
  powershell :: subprocess_result

text \<open>process-photos: \<^verbatim>\<open>start_distributed_processing\<close> makes the directories, writes the
  workflow file and runs the processing script in PowerShell.\<close>

definition start_distributed_processing :: "subprocess_result \<Rightarrow> fs_effect list \<times> (py_error + bool)" where
  "start_distributed_processing r =
     ([MakeDirs NAS_OUTPUT, MakeDirs NAS_TEMP, WriteFile (NAS_TEMP @ [''workflow.py''])],
      (case r of
         Stdout text \<Rightarrow> Inr True
       | CalledProcessError \<Rightarrow> Inr False
       | OtherException \<Rightarrow> Inl UncaughtException))"

definition process_photos_main :: "pp_env \<Rightarrow> run" where
  "process_photos_main e =
     (case check_cluster_status (kubectl_get_pods e) of
        Inl err \<Rightarrow> raised [] err
      | Inr False \<Rightarrow> returned [] [] ClusterNotReady
      | Inr True \<Rightarrow>
          if photos e = [] then returned [] [] NoPhotosFound
          else (case start_distributed_processing (powershell e) of
                  (es, Inl err) \<Rightarrow> raised es err
                | (es, Inr True) \<Rightarrow> returned es [] Completed
                | (es, Inr False) \<Rightarrow> returned es [] ProcessingFailed))"

text \<open>process-photos-simple: \<^verbatim>\<open>start_distributed_processing\<close> runs six timed steps
  itself, writes two result files and returns \<^verbatim>\<open>True\<close>.\<close>

definition simple_steps :: "string list" where
  "simple_steps =
     [''Step 1: Feature Extraction'',
      ''Step 2: Image Matching'',
      ''Step 3: Structure from Motion'',
      ''Step 4: Dense Reconstruction'',
      ''Step 5: Mesh Generation'',
      ''Step 6: Texture Mapping'']"

definition start_distributed_processing_simple :: "fs_effect list \<times> string list \<times> bool" where
  "start_distributed_processing_simple =
     ([MakeDirs NAS_OUTPUT, MakeDirs NAS_TEMP,
       WriteFile (NAS_OUTPUT @ [''processing_results.txt'']),
       WriteFile (NAS_OUTPUT @ [''3d_model_info.txt''])],
      simple_steps, True)"

definition process_photos_simple_main :: "env \<Rightarrow> run" where
  "process_photos_simple_main e =
     (case check_cluster_status (kubectl_get_pods e) of
        Inl err \<Rightarrow> raised [] err
      | Inr False \<Rightarrow> returned [] [] ClusterNotReady
      | Inr True \<Rightarrow>
          if photos e = [] then returned [] [] NoPhotosFound
          else (case start_distributed_processing_simple of
                  (es, ss, True) \<Rightarrow> returned es ss Completed
                | (es, ss, False) \<Rightarrow> returned es ss ProcessingFailed))"

section \<open>The control centre's stop button and a running pipeline\<close>

text \<open>
  \<^verbatim>\<open>stop_workflows\<close> of the control centre hands one command to
  \<^verbatim>\<open>run_command_in_thread\<close>, which runs it in a background thread. The state of the
  control centre that matters here is the list of commands it has started.
\<close>

definition bs :: char where
  "bs = CHR 0x5C"

definition stop_command :: string where
  "stop_command =
     ''powershell -ExecutionPolicy Bypass -File ..'' @ [bs] @ ''scripts'' @ [bs] @ ''deploy.ps1 stop''"

definition stop_workflows :: "string list \<Rightarrow> string list" where
  "stop_workflows started = started @ [stop_command]"

text \<open>
  A run of realistic-meshroom-processing over the photos \<open>phs\<close>, one step at a time:
  \<open>pc\<close> counts the steps done. Steps \<open>0\<close> to \<open>5\<close> are the six steps of
  \<^verbatim>\<open>process_photos_realistically\<close>, each printing its heading; step \<open>6\<close> is
  \<^verbatim>\<open>create_realistic_output_files\<close> on the dictionary returned. Between two steps the
  control centre may press its stop button.
\<close>

datatype event = PipelineStep | StopWorkflows

record sys =
  pc :: nat
  printed :: "string list"
  written :: "fs_effect list"
  gui_started :: "string list"

definition sys_init :: sys where
  "sys_init = \<lparr>pc = 0, printed = [], written = [], gui_started = []\<rparr>"

definition pipeline_step :: "string list \<Rightarrow> path \<Rightarrow> string \<Rightarrow> bool \<Rightarrow> sys \<Rightarrow> sys" where
  "pipeline_step phs session_path session_name has_cluster s =
     (let (headings, st) = process_photos_realistically phs session_path session_name has_cluster
      in if pc s < 6 then s\<lparr>pc := Suc (pc s), printed := printed s @ [headings ! pc s]\<rparr>
         else if pc s = 6 then
           s\<lparr>pc := 7,
             written := written s @ fst (create_realistic_output_files (length phs) session_path st)\<rparr>
         else s)"

fun exec :: "string list \<Rightarrow> path \<Rightarrow> string \<Rightarrow> bool \<Rightarrow> event list \<Rightarrow> sys \<Rightarrow> sys" where
  "exec phs sp sn hc [] s = s"
| "exec phs sp sn hc (PipelineStep # evs) s = exec phs sp sn hc evs (pipeline_step phs sp sn hc s)"
| "exec phs sp sn hc (StopWorkflows # evs) s =
     exec phs sp sn hc evs (s\<lparr>gui_started := stop_workflows (gui_started s)\<rparr>)"

text \<open>What the pipeline has done so far: steps done, headings printed, storage operations.\<close>

definition pipeline_view :: "sys \<Rightarrow> nat \<times> string list \<times> fs_effect list" where
  "pipeline_view s = (pc s, printed s, written s)"

definition is_pipeline_step :: "event \<Rightarrow> bool" where
  "is_pipeline_step ev = (ev = PipelineStep)"

section \<open>Listing earlier sessions\<close>

text \<open>
  \<^verbatim>\<open>list_previous_sessions\<close> (the same in realistic- and meshroom-native-processing).
  An entry of the output directory has a name, may be a directory, has a modification time
  (a float of seconds in Python, a number of milliseconds here; \<open>None\<close>:
  \<^verbatim>\<open>os.path.getmtime\<close> raises) and a listing of names, each marked as a regular
  file or not (\<open>None\<close>: \<^verbatim>\<open>os.listdir\<close> raises, the entry is unreadable). \<open>strftime t\<close> is
  the local date and time of \<open>t\<close> in the form \<^verbatim>\<open>%Y-%m-%d %H:%M:%S\<close>.
\<close>

record dir_entry =
  entry_name :: string
  entry_is_dir :: bool
  entry_mtime :: "nat option"
  entry_listing :: "(string \<times> bool) list option"

record session =
  sess_name :: string
  sess_path :: path
  sess_date :: string
  sess_files :: nat

record listing_env =
  base_exists :: bool
  base_listing :: "dir_entry list option"
  strftime :: "nat \<Rightarrow> string"

definition file_count :: "dir_entry \<Rightarrow> nat" where
  "file_count d = (case entry_listing d of None \<Rightarrow> 0 | Some fs \<Rightarrow> length (filter snd fs))"

definition is_session_dir :: "dir_entry \<Rightarrow> bool" where
  "is_session_dir d = (entry_is_dir d \<and> startswith (entry_name d) ''meshroom_session_'')"

text \<open>The loop over the entries; \<open>None\<close> when an exception leaves it.\<close>

fun collect_sessions :: "(nat \<Rightarrow> string) \<Rightarrow> dir_entry list \<Rightarrow> session list option" where
  "collect_sessions fmt [] = Some []"
| "collect_sessions fmt (d # ds) =
     (if is_session_dir d then
        (case entry_mtime d of
           None \<Rightarrow> None
         | Some t \<Rightarrow>
            (case collect_sessions fmt ds of
               None \<Rightarrow> None
             | Some rest \<Rightarrow>
                 Some (\<lparr>sess_name = entry_name d,
                        sess_path = NAS_OUTPUT_BASE @ [entry_name d],
                        sess_date = fmt t,
                        sess_files = file_count d\<rparr> # rest)))
      else collect_sessions fmt ds)"

text \<open>\<^verbatim>\<open>xs.sort(key=f, reverse=True)\<close>: descending by key, and elements with equal keys
  keep their order.\<close>

definition sort_reverse :: "('a \<Rightarrow> 'k::linorder) \<Rightarrow> 'a list \<Rightarrow> 'a list" where
  "sort_reverse f xs = rev (sort_key f (rev xs))"

definition list_previous_sessions :: "listing_env \<Rightarrow> session list" where
  "list_previous_sessions e =
     (if \<not> base_exists e then []
      else case base_listing e of
             None \<Rightarrow> []
           | Some ds \<Rightarrow>
              (case collect_sessions (strftime e) ds of
                 None \<Rightarrow> []
               | Some sessions \<Rightarrow> sort_reverse sess_date sessions))"

text \<open>The dictionary the loop appends for a session directory \<open>d\<close> whose modification time
  can be read: its date is the formatted modification time of \<open>d\<close>.\<close>

definition session_of :: "(nat \<Rightarrow> string) \<Rightarrow> dir_entry \<Rightarrow> session" where
  "session_of fmt d =
     \<lparr>sess_name = entry_name d,
      sess_path = NAS_OUTPUT_BASE @ [entry_name d],
      sess_date = fmt (the (entry_mtime d)),
      sess_files = file_count d\<rparr>"

section \<open>Lemmas on text\<close>

lemma digit_val_digit_char: "d < 10 \<Longrightarrow> digit_val (digit_char d) = Some d"
proof -
  assume "d < 10"
  then have "d \<in> {0,1,2,3,4,5,6,7,8,9}" by auto
  then show ?thesis
    by (auto simp: digit_val_def digit_char_def upt_rec [of 0] upt_rec [of "Suc _"])
qed

lemma parse_digits_snoc:
  "parse_digits acc (s @ [c]) =
     (case parse_digits acc s of None \<Rightarrow> None
      | Some v \<Rightarrow> (case digit_val c of None \<Rightarrow> None | Some d \<Rightarrow> Some (10 * v + d)))"
  by (induction s arbitrary: acc) (auto split: option.splits)

lemma parse_digits_str_nat: "parse_digits 0 (str_nat n) = Some n"
proof (induction n rule: str_nat.induct)
  case (1 n)
  show ?case
  proof (cases "n < 10")
    case True
    then show ?thesis
      by (subst str_nat.simps) (simp add: digit_val_digit_char)
  next
    case False
    with 1 have "parse_digits 0 (str_nat (n div 10)) = Some (n div 10)" by simp
    with False show ?thesis
      by (subst str_nat.simps) (simp add: parse_digits_snoc digit_val_digit_char)
  qed
qed

lemma str_nat_not_Nil: "str_nat n \<noteq> []"
  by (subst str_nat.simps) simp

lemma parse_nat_str_nat: "parse_nat (str_nat n) = Some n"
  by (simp add: parse_nat_def str_nat_not_Nil parse_digits_str_nat)

lemma digit_char_in: "d < 10 \<Longrightarrow> digit_char d \<in> set ''0123456789''"
  unfolding digit_char_def by (rule nth_mem) simp

lemma set_str_nat: "set (str_nat n) \<subseteq> set ''0123456789''"
proof (induction n rule: str_nat.induct)
  case (1 n)
  show ?case
  proof (cases "n < 10")
    case True
    then show ?thesis using digit_char_in [of n]
      by (subst str_nat.simps) simp
  next
    case False
    with 1 have "set (str_nat (n div 10)) \<subseteq> set ''0123456789''" by simp
    moreover have "digit_char (n mod 10) \<in> set ''0123456789''"
      by (rule digit_char_in) simp
    ultimately show ?thesis using False
      by (subst str_nat.simps) simp
  qed
qed

lemma nl_notin_str_nat [simp]: "nl \<notin> set (str_nat n)"
  using set_str_nat [of n] by (auto simp: nl_def)

lemma nl_notin_esc_n [simp]: "nl \<notin> set esc_n"
  by (simp add: nl_def esc_n_def)

lemma lines_acc_no_nl:
  "nl \<notin> set s \<Longrightarrow> lines_acc cur s = (if cur @ s = [] then [] else [cur @ s])"
  by (induction s arbitrary: cur) auto

lemma lines_acc_line:
  "nl \<notin> set s \<Longrightarrow> lines_acc cur (s @ nl # rest) = (cur @ s) # lines_acc [] rest"
  by (induction s arbitrary: cur) auto

lemma file_lines_unlines_append:
  "(\<And>l. l \<in> set ls \<Longrightarrow> nl \<notin> set l) \<Longrightarrow> file_lines (unlines ls @ rest) = ls @ file_lines rest"
proof (induction ls)
  case Nil
  show ?case by (simp add: unlines_def)
next
  case (Cons l ls)
  have "nl \<notin> set l" using Cons.prems by simp
  then have "file_lines (unlines (l # ls) @ rest) = l # file_lines (unlines ls @ rest)"
    using lines_acc_line [of l "[]" "unlines ls @ rest"]
    by (simp add: file_lines_def unlines_def)
  then show ?case using Cons by simp
qed

lemma file_lines_unlines:
  "(\<And>l. l \<in> set ls \<Longrightarrow> nl \<notin> set l) \<Longrightarrow> file_lines (unlines ls) = ls"
  using file_lines_unlines_append [of ls "[]"] by (simp add: file_lines_def)

lemma file_lines_no_nl:
  "nl \<notin> set s \<Longrightarrow> file_lines s = (if s = [] then [] else [s])"
  by (simp add: file_lines_def lines_acc_no_nl)

lemma nl_notin_records:
  "(\<And>i. nl \<notin> set (pt i)) \<Longrightarrow> nl \<notin> set (concat (map (\<lambda>i. pt i @ esc_n) [0 ..< k]))"
  by auto

lemma records_not_Nil:
  "0 < k \<Longrightarrow> concat (map (\<lambda>i. pt i @ esc_n) [0 ..< k]) \<noteq> []"
  by (cases k) (auto simp: esc_n_def upt_rec [of 0])

section \<open>The point clouds as files\<close>

lemma ply_lines:
  assumes hdr: "\<And>l. l \<in> set hdr \<Longrightarrow> nl \<notin> set l"
    and pt: "\<And>i. nl \<notin> set (pt i)"
  shows "file_lines (unlines hdr @ concat (map (\<lambda>i. pt i @ esc_n) [0 ..< k]))
         = hdr @ (if k = 0 then [] else [concat (map (\<lambda>i. pt i @ esc_n) [0 ..< k])])"
proof -
  let ?body = "concat (map (\<lambda>i. pt i @ esc_n) [0 ..< k])"
  have "nl \<notin> set ?body" using pt by (rule nl_notin_records)
  then have "file_lines ?body = (if ?body = [] then [] else [?body])"
    by (rule file_lines_no_nl)
  moreover have "?body = [] \<longleftrightarrow> k = 0"
    using records_not_Nil [of k pt] by auto
  ultimately show ?thesis
    using file_lines_unlines_append [of hdr ?body] hdr by simp
qed

lemma valid_ply_header_all: "list_all (\<lambda>l. nl \<notin> set l) (valid_ply_header n)"
  using nl_notin_str_nat by (simp add: valid_ply_header_def nl_def)

lemma valid_ply_header_no_nl: "l \<in> set (valid_ply_header n) \<Longrightarrow> nl \<notin> set l"
  using valid_ply_header_all [of n] by (simp add: list_all_iff)

lemma valid_ply_declared:
  "ply_declared (valid_ply_header n @ rest) = Some (num_points n)"
  by (simp add: valid_ply_header_def parse_nat_str_nat)

lemma valid_ply_data: "ply_data_lines (valid_ply_header n @ rest) = rest"
  by (simp add: valid_ply_header_def)

lemma valid_ply_file_lines:
  assumes "\<And>i. nl \<notin> set (pt i)"
  shows "file_lines (create_valid_ply_file pt n)
         = valid_ply_header n
           @ (if num_points n = 0 then [] else [concat (valid_ply_records pt n)])"
  unfolding create_valid_ply_file_def valid_ply_records_def
proof (rule ply_lines)
  show "\<And>l. l \<in> set (valid_ply_header n) \<Longrightarrow> nl \<notin> set l"
    by (rule valid_ply_header_no_nl)
  show "\<And>i. nl \<notin> set (pt i)" by (rule assms)
qed

lemma realistic_ply_header_all:
  "nl \<notin> set session_name \<Longrightarrow> list_all (\<lambda>l. nl \<notin> set l) (realistic_ply_header n session_name st)"
  using nl_notin_str_nat by (simp add: realistic_ply_header_def nl_def)

lemma realistic_ply_header_no_nl:
  "nl \<notin> set session_name \<Longrightarrow> l \<in> set (realistic_ply_header n session_name st) \<Longrightarrow> nl \<notin> set l"
  using realistic_ply_header_all [of session_name n st] by (simp add: list_all_iff)

lemma realistic_ply_declared:
  "ply_declared (realistic_ply_header n session_name st @ rest) = Some (dense_points st)"
  by (simp add: realistic_ply_header_def parse_nat_str_nat)

lemma realistic_ply_data: "ply_data_lines (realistic_ply_header n session_name st @ rest) = rest"
  by (simp add: realistic_ply_header_def)

lemma realistic_ply_file_lines:
  assumes "\<And>i. nl \<notin> set (pt i)" and "nl \<notin> set session_name"
  shows "file_lines (realistic_ply_content pt n session_name st)
         = realistic_ply_header n session_name st
           @ (if dense_points st = 0 then [] else [concat (realistic_ply_records pt st)])"
  unfolding realistic_ply_content_def realistic_ply_records_def
proof (rule ply_lines)
  show "\<And>l. l \<in> set (realistic_ply_header n session_name st) \<Longrightarrow> nl \<notin> set l"
    using assms(2) by (rule realistic_ply_header_no_nl)
  show "\<And>i. nl \<notin> set (pt i)" by (rule assms(1))
qed

lemma native_ply_header_all: "list_all (\<lambda>l. nl \<notin> set l) (native_ply_header n)"
  using nl_notin_str_nat by (simp add: native_ply_header_def nl_def)

lemma native_ply_header_no_nl: "l \<in> set (native_ply_header n) \<Longrightarrow> nl \<notin> set l"
  using native_ply_header_all [of n] by (simp add: list_all_iff)

lemma native_ply_declared: "ply_declared (native_ply_header n @ rest) = Some (n * 2000)"
  by (simp add: native_ply_header_def parse_nat_str_nat)

lemma native_ply_data: "ply_data_lines (native_ply_header n @ rest) = rest"
  by (simp add: native_ply_header_def)

lemma native_ply_file_lines:
  assumes "\<And>i. nl \<notin> set (pt i)"
  shows "file_lines (native_ply_content pt n)
         = native_ply_header n
           @ (if n * 2000 = 0 then [] else [concat (native_ply_records pt n)])"
  unfolding native_ply_content_def native_ply_records_def
proof (rule ply_lines)
  show "\<And>l. l \<in> set (native_ply_header n) \<Longrightarrow> nl \<notin> set l"
    by (rule native_ply_header_no_nl)
  show "\<And>i. nl \<notin> set (pt i)" by (rule assms)
qed

text \<open>What a reader of the three point-cloud files finds: the declared count, and at most
  one data line, since no record ends in a line break.\<close>

lemma valid_ply_read_back:
  assumes "\<And>i. nl \<notin> set (pt i)"
  shows "ply_declared (file_lines (create_valid_ply_file pt n)) = Some (num_points n)"
    and "length (ply_data_lines (file_lines (create_valid_ply_file pt n)))
         = (if num_points n = 0 then 0 else 1)"
  using assms by (simp_all add: valid_ply_file_lines valid_ply_declared valid_ply_data)

lemma realistic_ply_read_back:
  assumes "\<And>i. nl \<notin> set (pt i)" and "nl \<notin> set session_name"
  shows "ply_declared (file_lines (realistic_ply_content pt n session_name st)) = Some (dense_points st)"
    and "length (ply_data_lines (file_lines (realistic_ply_content pt n session_name st)))
         = (if dense_points st = 0 then 0 else 1)"
  using assms by (simp_all add: realistic_ply_file_lines realistic_ply_declared realistic_ply_data)

lemma native_ply_read_back:
  assumes "\<And>i. nl \<notin> set (pt i)"
  shows "ply_declared (file_lines (native_ply_content pt n)) = Some (n * 2000)"
    and "length (ply_data_lines (file_lines (native_ply_content pt n)))
         = (if n * 2000 = 0 then 0 else 1)"
  using assms by (simp_all add: native_ply_file_lines native_ply_declared native_ply_data)

section \<open>Claims on the point clouds\<close>

lemma num_points_bounds:
  "num_points n = min (100 * n) 5000" "num_points n \<le> 5000"
  "n \<le> m \<Longrightarrow> num_points n \<le> num_points m"
  by (simp_all add: num_points_def mult.commute min_le_iff_disj)

lemma valid_ply_text:
  "create_valid_ply_file pt n
   = unlines (valid_ply_header n)
     @ concat (map (\<lambda>i. pt i @ esc_n) [0 ..< min (100 * n) 5000])"
  by (simp add: create_valid_ply_file_def valid_ply_records_def num_points_bounds(1))

text \<open>
  C10, at sixty and at three photos. \<^verbatim>\<open>create_valid_ply_file\<close> declares
  \<open>min (100 * n) 5000\<close> vertices in its header (\<open>5000\<close> and \<open>300\<close>) and appends that many
  records to the text, but what it writes after \<^verbatim>\<open>end_header\<close> is a single line: the
  records end in the two characters backslash and n, none in a line break, so the file
  does not hold the declared number of vertices.
\<close>

theorem point_cloud_cap_one_data_line:
  "num_points 60 = 5000
   \<and> ply_declared
       (file_lines (create_valid_ply_file (\<lambda>i. ''1.000000 0.000000 0.000000 128 255 255'') 60))
     = Some 5000
   \<and> length (valid_ply_records (\<lambda>i. ''1.000000 0.000000 0.000000 128 255 255'') 60) = 5000
   \<and> length (ply_data_lines
       (file_lines (create_valid_ply_file (\<lambda>i. ''1.000000 0.000000 0.000000 128 255 255'') 60)))
     = 1
   \<and> num_points 3 = 300
   \<and> ply_declared
       (file_lines (create_valid_ply_file (\<lambda>i. ''1.000000 0.000000 0.000000 128 255 255'') 3))
     = Some 300
   \<and> length (valid_ply_records (\<lambda>i. ''1.000000 0.000000 0.000000 128 255 255'') 3) = 300
   \<and> length (ply_data_lines
       (file_lines (create_valid_ply_file (\<lambda>i. ''1.000000 0.000000 0.000000 128 255 255'') 3)))
     = 1"
proof -
  have a: "\<And>i::nat. nl \<notin> set ''1.000000 0.000000 0.000000 128 255 255''"
    by (simp add: nl_def)
  have n: "num_points 60 = 5000" "num_points 3 = 300"
    by (simp_all add: num_points_def)
  show ?thesis
    using valid_ply_read_back [of "\<lambda>i. ''1.000000 0.000000 0.000000 128 255 255''" 60, OF a]
      valid_ply_read_back [of "\<lambda>i. ''1.000000 0.000000 0.000000 128 255 255''" 3, OF a]
    by (simp add: n valid_ply_records_def)
qed

text \<open>
  C1, at one photo. The header of each generated point cloud declares its vertex count
  (\<open>100\<close> in actual-meshroom-processing, \<open>2000\<close> in realistic- and
  meshroom-native-processing), and the text that follows \<^verbatim>\<open>end_header\<close> is a single line:
  every record ends in the two characters backslash and n, none in a line break.
\<close>

theorem point_cloud_one_data_line:
  "ply_declared
     (file_lines (create_valid_ply_file (\<lambda>i. ''1.000000 0.000000 0.000000 128 255 255'') 1))
   = Some 100
   \<and> length (ply_data_lines
        (file_lines (create_valid_ply_file (\<lambda>i. ''1.000000 0.000000 0.000000 128 255 255'') 1)))
     = 1
   \<and> ply_declared
       (file_lines (realistic_ply_content (\<lambda>i. ''1.000000 0.000000 0.000000 128 200 90 0.850'')
          1 (session_name_of ''20240101_120000'')
          (snd (process_photos_realistically [''IMG_0001.jpg'']
                  (NAS_OUTPUT_BASE @ [session_name_of ''20240101_120000''])
                  (session_name_of ''20240101_120000'') False))))
     = Some 2000
   \<and> length (ply_data_lines
       (file_lines (realistic_ply_content (\<lambda>i. ''1.000000 0.000000 0.000000 128 200 90 0.850'')
          1 (session_name_of ''20240101_120000'')
          (snd (process_photos_realistically [''IMG_0001.jpg'']
                  (NAS_OUTPUT_BASE @ [session_name_of ''20240101_120000''])
                  (session_name_of ''20240101_120000'') False)))))
     = 1
   \<and> ply_declared
       (file_lines (native_ply_content
          (\<lambda>i. ''1.000000 -2.500000 0.000000 128 200 90 0.500000 0.500000 -0.500000'') 1))
     = Some 2000
   \<and> length (ply_data_lines
       (file_lines (native_ply_content
          (\<lambda>i. ''1.000000 -2.500000 0.000000 128 200 90 0.500000 0.500000 -0.500000'') 1)))
     = 1"
proof -
  have a: "\<And>i::nat. nl \<notin> set ''1.000000 0.000000 0.000000 128 255 255''"
    by (simp add: nl_def)
  have r: "\<And>i::nat. nl \<notin> set ''1.000000 0.000000 0.000000 128 200 90 0.850''"
    by (simp add: nl_def)
  have n: "\<And>i::nat. nl \<notin> set ''1.000000 -2.500000 0.000000 128 200 90 0.500000 0.500000 -0.500000''"
    by (simp add: nl_def)
  have s: "nl \<notin> set (session_name_of ''20240101_120000'')"
    by (simp add: session_name_of_def nl_def)
  have d: "dense_points (snd (process_photos_realistically [''IMG_0001.jpg''] sp sn False)) = 2000"
    for sp sn
    by (simp add: process_photos_realistically_def)
  show ?thesis
    using valid_ply_read_back [of "\<lambda>i. ''1.000000 0.000000 0.000000 128 255 255''" 1, OF a]
      realistic_ply_read_back [of "\<lambda>i. ''1.000000 0.000000 0.000000 128 200 90 0.850''"
        "session_name_of ''20240101_120000''" 1, OF r s]
      native_ply_read_back
        [of "\<lambda>i. ''1.000000 -2.500000 0.000000 128 200 90 0.500000 0.500000 -0.500000''" 1, OF n]
    by (simp add: d num_points_def)
qed

section \<open>Lemmas on OBJ records\<close>

lemma py_range_bounds:
  assumes "0 < step" and "i \<in> set (py_range start stop step)"
  shows "start \<le> i \<and> i < stop"
proof -
  let ?b = "stop - start + int step - 1"
  from assms(2) obtain k where k: "k < nat (?b div int step)"
    and i: "i = start + int k * int step"
    by (auto simp: py_range_def)
  from k have a: "int k + 1 \<le> ?b div int step" by linarith
  have "(int k + 1) * int step \<le> (?b div int step) * int step"
    using a by (rule mult_right_mono) simp
  also have "\<dots> \<le> ?b"
    using assms(1) minus_mod_eq_div_mult [of ?b "int step"] pos_mod_sign [of "int step" ?b]
    by linarith
  finally have "int k * int step < stop - start" by (simp add: algebra_simps)
  with i show ?thesis by simp
qed

lemma length_py_range:
  "length (py_range start stop step) = nat ((stop - start + int step - 1) div int step)"
  by (simp add: py_range_def)

lemma vertex_total_append: "vertex_total (xs @ ys) = vertex_total xs + vertex_total ys"
  by (simp add: vertex_total_def)

lemma face_total_append: "face_total (xs @ ys) = face_total xs + face_total ys"
  by (simp add: face_total_def)

lemma totals_V [simp]:
  "vertex_total (map (\<lambda>i. V (f i)) xs) = length xs" "face_total (map (\<lambda>i. V (f i)) xs) = 0"
  by (induction xs) (simp_all add: vertex_total_def face_total_def)

lemma totals_VT [simp]:
  "vertex_total (map (\<lambda>i. VT (f i)) xs) = 0" "face_total (map (\<lambda>i. VT (f i)) xs) = 0"
  by (induction xs) (simp_all add: vertex_total_def face_total_def)

lemma totals_VN [simp]:
  "vertex_total (map (\<lambda>i. VN (f i)) xs) = 0" "face_total (map (\<lambda>i. VN (f i)) xs) = 0"
  by (induction xs) (simp_all add: vertex_total_def face_total_def)

lemma totals_F [simp]:
  "vertex_total (map (\<lambda>i. F (f i)) xs) = 0" "face_total (map (\<lambda>i. F (f i)) xs) = length xs"
  by (induction xs) (simp_all add: vertex_total_def face_total_def)

lemma declared_before_append:
  "declared_before seen (xs @ ys)
   = (declared_before seen xs \<and> declared_before (seen + vertex_total xs) ys)"
  by (induction xs arbitrary: seen) (auto simp: vertex_total_def)

lemma faces_in_range_iff:
  "faces_in_range rs
   = (\<forall>r \<in> set rs. \<forall>i \<in> set (face_indices r). 1 \<le> i \<and> i \<le> int (vertex_total rs))"
  by (simp add: faces_in_range_def list_all_iff)

lemma declared_before_no_faces:
  "(\<And>r. r \<in> set rs \<Longrightarrow> face_indices r = []) \<Longrightarrow> declared_before seen rs"
  by (induction rs arbitrary: seen) auto

lemma declared_before_faces:
  "(\<And>r. r \<in> set rs \<Longrightarrow>
      \<not> is_vertex r \<and> (\<forall>i \<in> set (face_indices r). 1 \<le> i \<and> i \<le> int seen))
   \<Longrightarrow> declared_before seen rs"
  by (induction rs) (auto simp: list_all_iff)

text \<open>The shape all three meshes have: vertex records first, then records that are no
  faces, then triangles over a range of first indices.\<close>

lemma mesh_shape:
  assumes rs: "rs = map (\<lambda>i. V (vtx i)) [0 ..< k] @ others @ map (\<lambda>i. F (tri i)) js"
    and others: "\<forall>r \<in> set others. \<not> is_vertex r \<and> face_indices r = []"
    and "face_total others = 0"
    and tri: "\<forall>j \<in> set js. \<forall>i \<in> set (map v_index (tri j)). 1 \<le> i \<and> i \<le> int k"
  shows "vertex_total rs = k" and "face_total rs = length js"
    and "faces_in_range rs" and "declared_before 0 rs"
proof -
  have vo: "vertex_total others = 0"
    using others by (auto simp: vertex_total_def filter_empty_conv)
  show vt: "vertex_total rs = k"
    by (simp add: rs vertex_total_append vo)
  show "face_total rs = length js"
    by (simp add: rs face_total_append assms(3))
  show "faces_in_range rs"
    unfolding faces_in_range_iff vt
    using others tri by (auto simp: rs)
  have "declared_before 0 (map (\<lambda>i. V (vtx i)) [0 ..< k])"
    by (rule declared_before_no_faces) auto
  moreover have "declared_before k others"
    using others by (intro declared_before_no_faces) auto
  moreover have "declared_before k (map (\<lambda>i. F (tri i)) js)"
    using tri by (intro declared_before_faces) auto
  ultimately show "declared_before 0 rs"
    by (simp add: rs declared_before_append vo)
qed

lemma realistic_mesh:
  assumes "realistic_obj_records vtx fmt6 st = Inr rs"
  shows "vertex_total rs = mesh_faces st div 2"
    and "face_total rs = (mesh_faces st div 2 - 1) div 3"
    and "faces_in_range rs" and "declared_before 0 rs"
proof -
  let ?k = "mesh_faces st div 2"
  let ?others = "map (\<lambda>i. VT (fmt6 (i mod 100) 100 @ '' '' @ fmt6 (i div 100) (?k div 100))) [0 ..< ?k]"
  let ?tri = "\<lambda>i. [Corner i (Some i) None, Corner (i + 1) (Some (i + 1)) None,
                   Corner (i + 2) (Some (i + 2)) None]"
  let ?js = "py_range 1 (int ?k - 2) 3"
  have rs: "rs = map (\<lambda>i. V (vtx i)) [0 ..< ?k] @ ?others @ map (\<lambda>i. F (?tri i)) ?js"
    using assms by (auto simp: realistic_obj_records_def Let_def triangle_def split: if_splits)
  have o: "\<forall>r \<in> set ?others. \<not> is_vertex r \<and> face_indices r = []"
    by auto
  have f: "face_total ?others = 0" by simp
  have t: "\<forall>j \<in> set ?js. \<forall>i \<in> set (map v_index (?tri j)). 1 \<le> i \<and> i \<le> int ?k"
    using py_range_bounds [of 3 _ 1 "int ?k - 2"] by fastforce
  note m = mesh_shape [OF rs o f t]
  show "vertex_total rs = ?k" by (rule m)
  have "nat ((int ?k - 2 - 1 + int 3 - 1) div int 3) = (?k - 1) div 3"
    by (cases "?k = 0") (simp_all add: nat_div_distrib nat_diff_distrib)
  then show "face_total rs = (?k - 1) div 3"
    using m(2) by (simp add: length_py_range)
  show "faces_in_range rs" by (rule m)
  show "declared_before 0 rs" by (rule m)
qed



lemma process_stats:
  "snd (process_photos_realistically phs sp sn hc)
   = \<lparr>sparse_points = length phs * 200, dense_points = length phs * 2000,
      mesh_faces = length phs * 1000,
      processing_time_tenths =
        max (length phs * 5) 50 + max (length phs * 3) 40 + max (length phs * 4) 60
        + max (length phs * 6) 80 + 90\<rparr>"
  "fst (process_photos_realistically phs sp sn hc) = realistic_steps"
  by (simp_all add: process_photos_realistically_def Let_def)

lemma realistic_mesh_built:
  "\<exists>rs. realistic_obj_records vtx fmt6 (snd (process_photos_realistically phs sp sn hc)) = Inr rs"
proof -
  have "\<not> (0 < length phs * 1000 div 2 \<and> length phs * 1000 div 2 div 100 = 0)"
    by (cases "length phs") auto
  then show ?thesis
    by (simp add: realistic_obj_records_def process_stats Let_def)
qed

section \<open>Claim on the meshes\<close>


section \<open>The printable solids as files\<close>

lemma nl_notin_facet_text:
  assumes "\<And>k. nl \<notin> set (sv k)"
  shows "nl \<notin> set (facet_text sv i)"
  using assms unfolding nl_def by (simp add: facet_text_def esc_n_def)

lemma nl_notin_stl_content:
  assumes "\<And>k. nl \<notin> set (sv k)"
  shows "nl \<notin> set (stl_content sv n face_count)"
proof -
  have "nl \<notin> set (concat (stl_facets sv face_count))"
    using nl_notin_facet_text [OF assms] by (auto simp: stl_facets_def)
  moreover have "nl \<notin> set (''solid '' @ solid_name n @ esc_n)"
    "nl \<notin> set (''endsolid '' @ solid_name n)"
    using nl_notin_str_nat [of n] unfolding nl_def by (simp_all add: solid_name_def esc_n_def)
  ultimately show ?thesis
    unfolding stl_content_def by simp
qed

lemma stl_one_line:
  assumes "\<And>k. nl \<notin> set (sv k)"
  shows "file_lines (stl_content sv n face_count) = [stl_content sv n face_count]"
  using nl_notin_stl_content [of sv n face_count, OF assms]
  by (simp add: file_lines_no_nl) (simp add: stl_content_def)

lemma stl_read_back:
  assumes "\<And>k. nl \<notin> set (sv k)"
  shows "stl_last_name (file_lines (stl_content sv n face_count)) = None"
    and "stl_facet_lines (file_lines (stl_content sv n face_count)) = 0"
    and "stl_first_name (file_lines (stl_content sv n face_count)) \<noteq> Some (solid_name n)"
  unfolding stl_one_line [of sv, OF assms]
  by (simp_all add: stl_last_name_def stl_facet_lines_def stl_first_name_def stl_content_def
      startswith_def esc_n_def)

lemma quick_stl_lines_no_nl: "list_all (\<lambda>l. nl \<notin> set l) quick_stl_lines"
  by (simp add: quick_stl_lines_def nl_def)

lemma quick_stl_read_back:
  "file_lines create_valid_stl = quick_stl_lines"
  "stl_first_name (file_lines create_valid_stl) = Some ''SimpleModel''"
  "stl_last_name (file_lines create_valid_stl) = Some ''SimpleModel''"
  "stl_facet_lines (file_lines create_valid_stl) = 4"
proof -
  show l: "file_lines create_valid_stl = quick_stl_lines"
    unfolding create_valid_stl_def
    using quick_stl_lines_no_nl by (intro file_lines_unlines) (simp add: list_all_iff)
  show "stl_first_name (file_lines create_valid_stl) = Some ''SimpleModel''"
    unfolding l by (simp add: stl_first_name_def quick_stl_lines_def)
  show "stl_last_name (file_lines create_valid_stl) = Some ''SimpleModel''"
    unfolding l by (simp add: stl_last_name_def quick_stl_lines_def)
  show "stl_facet_lines (file_lines create_valid_stl) = 4"
    unfolding l by (simp add: stl_facet_lines_def quick_stl_lines_def startswith_def)
qed

lemma stl_text_shape:
  "stl_content sv n face_count
   = (''solid '' @ solid_name n @ esc_n) @ concat (stl_facets sv face_count)
     @ (''endsolid '' @ solid_name n)"
  "length (stl_facets sv face_count) = face_count"
  by (simp_all add: stl_content_def stl_facets_def)

section \<open>Claim on the printable solids\<close>

text \<open>
  C3, at one photo. The solid written by realistic- and by meshroom-native-processing is
  a single line of text: every piece ends in the two characters backslash and n, none in
  a line break. Read line by line, the file has no first line \<^verbatim>\<open>solid <name>\<close>, no last
  line \<^verbatim>\<open>endsolid <name>\<close> and no line that opens a facet, where \<open>1000\<close> (realistic) and \<open>50\<close> (native) facets were
  appended.
\<close>

theorem solid_is_one_line:
  "length (file_lines (realistic_stl_content (\<lambda>k. ''2.000000 0.000000 0.250000'') 1
             (snd (process_photos_realistically [''IMG_0001.jpg'']
                     (NAS_OUTPUT_BASE @ [session_name_of ''20240101_120000''])
                     (session_name_of ''20240101_120000'') False)))) = 1
   \<and> stl_first_name (file_lines (realistic_stl_content (\<lambda>k. ''2.000000 0.000000 0.250000'') 1
             (snd (process_photos_realistically [''IMG_0001.jpg'']
                     (NAS_OUTPUT_BASE @ [session_name_of ''20240101_120000''])
                     (session_name_of ''20240101_120000'') False)))) \<noteq> Some (solid_name 1)
   \<and> stl_last_name (file_lines (realistic_stl_content (\<lambda>k. ''2.000000 0.000000 0.250000'') 1
             (snd (process_photos_realistically [''IMG_0001.jpg'']
                     (NAS_OUTPUT_BASE @ [session_name_of ''20240101_120000''])
                     (session_name_of ''20240101_120000'') False)))) = None
   \<and> stl_facet_lines (file_lines (realistic_stl_content (\<lambda>k. ''2.000000 0.000000 0.250000'') 1
             (snd (process_photos_realistically [''IMG_0001.jpg'']
                     (NAS_OUTPUT_BASE @ [session_name_of ''20240101_120000''])
                     (session_name_of ''20240101_120000'') False)))) = 0
   \<and> length (stl_facets (\<lambda>k. ''2.000000 0.000000 0.250000'')
        (mesh_faces (snd (process_photos_realistically [''IMG_0001.jpg'']
                     (NAS_OUTPUT_BASE @ [session_name_of ''20240101_120000''])
                     (session_name_of ''20240101_120000'') False)))) = 1000
   \<and> length (file_lines (native_stl_content (\<lambda>k. ''1.500000 -0.500000 0.250000'') 1)) = 1
   \<and> stl_first_name (file_lines (native_stl_content (\<lambda>k. ''1.500000 -0.500000 0.250000'') 1))
       \<noteq> Some (solid_name 1)
   \<and> stl_last_name (file_lines (native_stl_content (\<lambda>k. ''1.500000 -0.500000 0.250000'') 1)) = None
   \<and> stl_facet_lines (file_lines (native_stl_content (\<lambda>k. ''1.500000 -0.500000 0.250000'') 1)) = 0"
proof -
  have a: "\<And>k::nat. nl \<notin> set ''2.000000 0.000000 0.250000''" by (simp add: nl_def)
  have b: "\<And>k::nat. nl \<notin> set ''1.500000 -0.500000 0.250000''" by (simp add: nl_def)
  show ?thesis
    using stl_one_line [of "\<lambda>k. ''2.000000 0.000000 0.250000''", OF a]
      stl_read_back [of "\<lambda>k. ''2.000000 0.000000 0.250000''", OF a]
      stl_one_line [of "\<lambda>k. ''1.500000 -0.500000 0.250000''", OF b]
      stl_read_back [of "\<lambda>k. ''1.500000 -0.500000 0.250000''", OF b]
    by (simp add: realistic_stl_content_def native_stl_content_def stl_facets_def process_stats)
qed

section \<open>Claim on the counts of two runs\<close>

text \<open>
  C4. Two runs of realistic-meshroom-processing over photo lists of the same length \<open>n\<close>
  return the same dictionary (\<open>200 * n\<close> sparse points, \<open>2000 * n\<close> dense points,
  \<open>1000 * n\<close> faces) and declare and hold the same counts in their three files, whatever
  random numbers, session names, session paths and cluster flags the two runs have: the
  vertex count in the header of the point cloud, the number of its records, the numbers
  of vertex and face records of the mesh, and the number of facets of the solid. Session
  names and formatted numbers are assumed to hold no line break.
\<close>

theorem counts_depend_on_photo_count_only:
  assumes n: "length phs = n" "length phs' = n"
    and st: "st = snd (process_photos_realistically phs sp sn hc)"
      "st' = snd (process_photos_realistically phs' sp' sn' hc')"
    and pt: "\<forall>i. nl \<notin> set (pt i)" "\<forall>i. nl \<notin> set (pt' i)"
    and sn: "nl \<notin> set sn" "nl \<notin> set sn'"
  shows "st' = st
    \<and> sparse_points st = 200 * n \<and> dense_points st = 2000 * n \<and> mesh_faces st = 1000 * n
    \<and> ply_declared (file_lines (realistic_ply_content pt n sn st)) = Some (2000 * n)
    \<and> ply_declared (file_lines (realistic_ply_content pt' n sn' st')) = Some (2000 * n)
    \<and> length (realistic_ply_records pt st) = 2000 * n
    \<and> length (realistic_ply_records pt' st') = 2000 * n
    \<and> (\<exists>rs rs'. realistic_obj_records vtx fmt st = Inr rs
           \<and> realistic_obj_records vtx' fmt st' = Inr rs'
           \<and> vertex_total rs = 500 * n \<and> vertex_total rs' = 500 * n
           \<and> face_total rs = (500 * n - 1) div 3 \<and> face_total rs' = (500 * n - 1) div 3)
    \<and> length (stl_facets sv (mesh_faces st)) = 1000 * n
    \<and> length (stl_facets sv' (mesh_faces st')) = 1000 * n"
proof -
  have eq: "st' = st"
    by (simp add: st process_stats n)
  have c: "sparse_points st = 200 * n" "dense_points st = 2000 * n" "mesh_faces st = 1000 * n"
    by (simp_all add: st process_stats n)
  have d: "ply_declared (file_lines (realistic_ply_content pt n sn st)) = Some (2000 * n)"
    "ply_declared (file_lines (realistic_ply_content pt' n sn' st')) = Some (2000 * n)"
    using pt sn by (simp_all add: realistic_ply_read_back eq c)
  have r: "length (realistic_ply_records pt st) = 2000 * n"
    "length (realistic_ply_records pt' st') = 2000 * n"
    by (simp_all add: realistic_ply_records_def eq c)
  obtain rs where rs: "realistic_obj_records vtx fmt st = Inr rs"
    unfolding st using realistic_mesh_built by blast
  obtain rs' where rs': "realistic_obj_records vtx' fmt st' = Inr rs'"
    unfolding st using realistic_mesh_built by blast
  have m: "vertex_total rs = 500 * n" "face_total rs = (500 * n - 1) div 3"
    using realistic_mesh [OF rs] by (simp_all add: c)
  have m': "vertex_total rs' = 500 * n" "face_total rs' = (500 * n - 1) div 3"
    using realistic_mesh [OF rs'] by (simp_all add: eq c)
  have o: "\<exists>rs rs'. realistic_obj_records vtx fmt st = Inr rs
           \<and> realistic_obj_records vtx' fmt st' = Inr rs'
           \<and> vertex_total rs = 500 * n \<and> vertex_total rs' = 500 * n
           \<and> face_total rs = (500 * n - 1) div 3 \<and> face_total rs' = (500 * n - 1) div 3"
    using rs rs' m m' by blast
  have f: "length (stl_facets sv (mesh_faces st)) = 1000 * n"
    "length (stl_facets sv' (mesh_faces st')) = 1000 * n"
    by (simp_all add: stl_facets_def eq c)
  show ?thesis
    using eq c d r o f by blast
qed

theorem counts_depend_on_photo_count_only_witness:
  "snd (process_photos_realistically [''p1.jpg'', ''p2.jpg'', ''p3.jpg'', ''p4.jpg'', ''p5.jpg'']
          (NAS_OUTPUT_BASE @ [session_name_of ''20240102_093000''])
          (session_name_of ''20240102_093000'') True)
   = snd (process_photos_realistically [''a.jpg'', ''b.jpg'', ''c.jpg'', ''d.heic'', ''e.png'']
          (NAS_OUTPUT_BASE @ [session_name_of ''20240101_120000''])
          (session_name_of ''20240101_120000'') False)
   \<and> ply_declared (file_lines (realistic_ply_content
         (\<lambda>i. ''1.000000 0.000000 0.000000 128 200 90 0.850'') 5
         (session_name_of ''20240101_120000'')
         (snd (process_photos_realistically [''a.jpg'', ''b.jpg'', ''c.jpg'', ''d.heic'', ''e.png'']
                 (NAS_OUTPUT_BASE @ [session_name_of ''20240101_120000''])
                 (session_name_of ''20240101_120000'') False)))) = Some (2000 * 5)
   \<and> ply_declared (file_lines (realistic_ply_content
         (\<lambda>i. ''-0.500000 2.250000 1.000000 81 219 100 0.700'') 5
         (session_name_of ''20240102_093000'')
         (snd (process_photos_realistically [''p1.jpg'', ''p2.jpg'', ''p3.jpg'', ''p4.jpg'', ''p5.jpg'']
                 (NAS_OUTPUT_BASE @ [session_name_of ''20240102_093000''])
                 (session_name_of ''20240102_093000'') True)))) = Some (2000 * 5)"
proof -
  let ?phs = "[''a.jpg'', ''b.jpg'', ''c.jpg'', ''d.heic'', ''e.png'']"
  let ?phs' = "[''p1.jpg'', ''p2.jpg'', ''p3.jpg'', ''p4.jpg'', ''p5.jpg'']"
  let ?pt = "\<lambda>i::nat. ''1.000000 0.000000 0.000000 128 200 90 0.850''"
  let ?pt' = "\<lambda>i::nat. ''-0.500000 2.250000 1.000000 81 219 100 0.700''"
  have n: "length ?phs = 5" "length ?phs' = 5" by simp_all
  have pt: "\<forall>i. nl \<notin> set (?pt i)" "\<forall>i. nl \<notin> set (?pt' i)"
    by (simp_all add: nl_def)
  have sn: "nl \<notin> set (session_name_of ''20240101_120000'')"
    "nl \<notin> set (session_name_of ''20240102_093000'')"
    by (simp_all add: nl_def session_name_of_def)
  show ?thesis
    using counts_depend_on_photo_count_only
      [where vtx = ?pt and vtx' = ?pt' and fmt = "\<lambda>p q. ''0.000000''"
         and sv = ?pt and sv' = ?pt'
         and sp = "NAS_OUTPUT_BASE @ [session_name_of ''20240101_120000'']" and hc = False
         and sp' = "NAS_OUTPUT_BASE @ [session_name_of ''20240102_093000'']" and hc' = True,
       OF n refl refl pt sn]
    by (elim conjE) (intro conjI, assumption+)
qed

section \<open>Lemmas on the readiness probes\<close>

lemma probe_realistic:
  "k \<noteq> OtherException \<Longrightarrow> \<exists>b. check_cluster_status_realistic k = Inr b"
  by (cases k) (auto simp: check_cluster_status_realistic_def)

lemma probe_native:
  "k \<noteq> OtherException \<Longrightarrow> \<exists>b. check_cluster_status_native k = Inr b"
  by (cases k) (auto simp: check_cluster_status_native_def)

section \<open>Claim on a run without photos\<close>

text \<open>
  C5, as the code has it. When photo discovery yields no photo (the share is reachable and
  the probe does not raise), \<^verbatim>\<open>main\<close> of realistic- and of meshroom-native-processing
  returns after printing that no photos were found, runs no step and writes no file; by
  then it has created the output directory and the session directory (and, in
  meshroom-native-processing, the temp directory), because the session folder is created
  before the photos are looked for.
\<close>

theorem no_photos_after_session_folder:
  assumes "photos e = []" and "nas_input_exists e" and "kubectl_get_pods e \<noteq> OtherException"
    and "photos e' = []" and "nas_input_exists e'" and "kubectl_get_pods e' \<noteq> OtherException"
  shows "result (realistic_main e) = Inr NoPhotosFound
    \<and> steps (realistic_main e) = []
    \<and> effects (realistic_main e)
        = [MakeDirs NAS_OUTPUT_BASE, MakeDirs (NAS_OUTPUT_BASE @ [session_name_of (now e)])]
    \<and> result (native_main e') = Inr NoPhotosFound
    \<and> steps (native_main e') = []
    \<and> effects (native_main e')
        = [MakeDirs NAS_OUTPUT_BASE, MakeDirs (NAS_OUTPUT_BASE @ [session_name_of (now e')]),
           MakeDirs NAS_TEMP]"
proof -
  obtain b where b: "check_cluster_status_realistic (kubectl_get_pods e) = Inr b"
    using probe_realistic assms(3) by blast
  obtain b' where b': "check_cluster_status_native (kubectl_get_pods e') = Inr b'"
    using probe_native assms(6) by blast
  have "realistic_main e
        = returned [MakeDirs NAS_OUTPUT_BASE, MakeDirs (NAS_OUTPUT_BASE @ [session_name_of (now e)])]
            [] NoPhotosFound"
    using assms(1,2) by (simp add: realistic_main_def b create_session_folder_def Let_def)
  moreover have "native_main e'
        = returned [MakeDirs NAS_OUTPUT_BASE, MakeDirs (NAS_OUTPUT_BASE @ [session_name_of (now e')]),
                    MakeDirs NAS_TEMP] [] NoPhotosFound"
    using assms(4,5) by (simp add: native_main_def b' create_session_folder_def Let_def)
  ultimately show ?thesis
    by (simp add: returned_def)
qed

theorem no_photos_after_session_folder_witness:
  "result (realistic_main \<lparr>nas_input_exists = True, now = ''20240101_120000'', photos = [],
                            kubectl_get_pods = CalledProcessError\<rparr>) = Inr NoPhotosFound
   \<and> effects (native_main \<lparr>nas_input_exists = True, now = ''20240101_120000'', photos = [],
                            kubectl_get_pods = CalledProcessError, kubectl_apply = CalledProcessError\<rparr>)
     = [MakeDirs NAS_OUTPUT_BASE, MakeDirs (NAS_OUTPUT_BASE @ [''meshroom_session_20240101_120000'']),
        MakeDirs NAS_TEMP]"
  using no_photos_after_session_folder
    [of "\<lparr>nas_input_exists = True, now = ''20240101_120000'', photos = [],
          kubectl_get_pods = CalledProcessError\<rparr>"
        "\<lparr>nas_input_exists = True, now = ''20240101_120000'', photos = [],
          kubectl_get_pods = CalledProcessError, kubectl_apply = CalledProcessError\<rparr>"]
  by (simp add: session_name_of_def)

text \<open>
  C5 as stated fails: with no photo in the input directory the run of
  realistic-meshroom-processing has already created the session directory when it
  returns.
\<close>

theorem no_photos_session_created:
  "result (realistic_main \<lparr>nas_input_exists = True, now = ''20240101_120000'', photos = [],
                            kubectl_get_pods = Stdout []\<rparr>) = Inr NoPhotosFound
   \<and> effects (realistic_main \<lparr>nas_input_exists = True, now = ''20240101_120000'', photos = [],
                            kubectl_get_pods = Stdout []\<rparr>)
     = [MakeDirs NAS_OUTPUT_BASE, MakeDirs (NAS_OUTPUT_BASE @ [''meshroom_session_20240101_120000''])]"
  by (simp add: realistic_main_def check_cluster_status_realistic_def create_session_folder_def
      session_name_of_def returned_def count_sub.simps Let_def)

section \<open>Claim on the failing delegate\<close>

lemma run_real_meshroom_failed:
  assumes "d = Raised \<or> (\<exists>rc t. d = Exited rc t \<and> rc \<noteq> 0)"
  shows "\<exists>t. run_real_meshroom sp d
          = ([WriteFile (sp @ [''meshroom_project.mg'']), MakeDirs (sp @ [''meshroom_output''])],
             False, t)"
  using assms by (auto simp: run_real_meshroom_def)

text \<open>
  C6. In actual-meshroom-processing, when the reconstruction executable was found, the
  user confirmed, and the executable exits with a non-zero return code or its invocation
  raises, the run is not a failure: \<^verbatim>\<open>main\<close> goes on to the simulation, prints its six
  steps in order, writes the point cloud and the mesh and then the summary, and reports
  the method \<^verbatim>\<open>Simulation\<close>. Outcome, steps, method and time are those of the run in
  which no executable was found; the only trace of the delegate is its project file and
  output directory.
\<close>

theorem delegate_failure_falls_back:
  assumes nas: "nas_input_exists e" and ph: "photos e \<noteq> []" and yes: "\<not> declined (response e)"
    and mp: "meshroom_path e = Some mp"
    and d: "delegate e = Raised \<or> (\<exists>rc t. delegate e = Exited rc t \<and> rc \<noteq> 0)"
  shows "result (actual_main e) = Inr Completed
    \<and> method_used (actual_main e) = ''Simulation''
    \<and> steps (actual_main e) = simulation_steps
    \<and> effects (actual_main e)
        = [MakeDirs NAS_OUTPUT_BASE,
           MakeDirs (NAS_OUTPUT_BASE @ [session_name_of (now e)]),
           WriteFile (NAS_OUTPUT_BASE @ [session_name_of (now e), ''meshroom_project.mg'']),
           MakeDirs (NAS_OUTPUT_BASE @ [session_name_of (now e), ''meshroom_output'']),
           WriteFile (NAS_OUTPUT_BASE
             @ [session_name_of (now e), ''pointcloud_'' @ str_nat (length (photos e)) @ ''photos.ply'']),
           WriteFile (NAS_OUTPUT_BASE
             @ [session_name_of (now e), ''mesh_'' @ str_nat (length (photos e)) @ ''photos.obj'']),
           WriteFile (NAS_OUTPUT_BASE @ [session_name_of (now e), ''processing_summary.txt''])]
    \<and> result (actual_main e) = result (actual_main (e\<lparr>meshroom_path := None\<rparr>))
    \<and> steps (actual_main e) = steps (actual_main (e\<lparr>meshroom_path := None\<rparr>))
    \<and> method_used (actual_main e) = method_used (actual_main (e\<lparr>meshroom_path := None\<rparr>))
    \<and> processing_time (actual_main e) = processing_time (actual_main (e\<lparr>meshroom_path := None\<rparr>))"
proof -
  let ?sp = "NAS_OUTPUT_BASE @ [session_name_of (now e)]"
  obtain t where t: "run_real_meshroom ?sp (delegate e)
      = ([WriteFile (?sp @ [''meshroom_project.mg'']), MakeDirs (?sp @ [''meshroom_output''])], False, t)"
    using run_real_meshroom_failed [OF d] by blast
  have a: "actual_main e
    = \<lparr>effects = [MakeDirs NAS_OUTPUT_BASE, MakeDirs ?sp,
                   WriteFile (?sp @ [''meshroom_project.mg'']), MakeDirs (?sp @ [''meshroom_output'']),
                   WriteFile (?sp @ [''pointcloud_'' @ str_nat (length (photos e)) @ ''photos.ply'']),
                   WriteFile (?sp @ [''mesh_'' @ str_nat (length (photos e)) @ ''photos.obj'']),
                   WriteFile (?sp @ [''processing_summary.txt''])],
       steps = simulation_steps, result = Inr Completed, method_used = ''Simulation'',
       processing_time = snd (simulate_realistic_processing (length (photos e)))\<rparr>"
    using nas ph yes
    by (simp add: actual_main_def create_session_folder_def Let_def mp t
        simulate_realistic_processing_def)
  have b: "actual_main (e\<lparr>meshroom_path := None\<rparr>)
    = \<lparr>effects = [MakeDirs NAS_OUTPUT_BASE, MakeDirs ?sp,
                   WriteFile (?sp @ [''pointcloud_'' @ str_nat (length (photos e)) @ ''photos.ply'']),
                   WriteFile (?sp @ [''mesh_'' @ str_nat (length (photos e)) @ ''photos.obj'']),
                   WriteFile (?sp @ [''processing_summary.txt''])],
       steps = simulation_steps, result = Inr Completed, method_used = ''Simulation'',
       processing_time = snd (simulate_realistic_processing (length (photos e)))\<rparr>"
    using nas ph yes
    by (simp add: actual_main_def create_session_folder_def Let_def
        simulate_realistic_processing_def)
  show ?thesis
    unfolding a b by simp
qed

theorem delegate_failure_falls_back_witness:
  "result (actual_main \<lparr>nas_input_exists = True, now = ''20240101_120000'',
       photos = [''a.jpg'', ''b.jpg'', ''c.jpg''], kubectl_get_pods = CalledProcessError,
       meshroom_path = Some ''C:/Meshroom/meshroom_batch.exe'', response = ''y'',
       delegate = Exited 1 42\<rparr>) = Inr Completed
   \<and> method_used (actual_main \<lparr>nas_input_exists = True, now = ''20240101_120000'',
       photos = [''a.jpg'', ''b.jpg'', ''c.jpg''], kubectl_get_pods = CalledProcessError,
       meshroom_path = Some ''C:/Meshroom/meshroom_batch.exe'', response = ''y'',
       delegate = Exited 1 42\<rparr>) = ''Simulation''
   \<and> steps (actual_main \<lparr>nas_input_exists = True, now = ''20240101_120000'',
       photos = [''a.jpg'', ''b.jpg'', ''c.jpg''], kubectl_get_pods = CalledProcessError,
       meshroom_path = Some ''C:/Meshroom/meshroom_batch.exe'', response = ''y'',
       delegate = Exited 1 42\<rparr>) = simulation_steps"
  using delegate_failure_falls_back
    [of "\<lparr>nas_input_exists = True, now = ''20240101_120000'',
       photos = [''a.jpg'', ''b.jpg'', ''c.jpg''], kubectl_get_pods = CalledProcessError,
       meshroom_path = Some ''C:/Meshroom/meshroom_batch.exe'', response = ''y'',
       delegate = Exited 1 42\<rparr>" "''C:/Meshroom/meshroom_batch.exe''"]
  by (simp add: declined_def)

section \<open>Claim on the readiness probe\<close>

lemma probe_negative:
  "check_cluster_status CalledProcessError = Inr False"
  "count_sub ''Running'' text < 2 \<Longrightarrow> check_cluster_status (Stdout text) = Inr False"
  by (simp_all add: check_cluster_status_def)

text \<open>
  C7, as the code has it. In realistic- and meshroom-native-processing the probe is
  advisory: a status query that fails with \<^verbatim>\<open>CalledProcessError\<close> counts as not ready,
  and whatever the probe reports (any two outcomes in which the query returned or failed
  in that way), \<^verbatim>\<open>main\<close> does the same storage operations, runs the same steps and ends
  the same way; the answer only selects the processing mode that is printed. In
  process-photos and process-photos-simple a negative answer ends \<^verbatim>\<open>main\<close> at once with
  the message that the cluster is not ready, before photo discovery and any write.
\<close>

theorem probe_advisory_or_guard:
  assumes k: "k \<noteq> OtherException" "k' \<noteq> OtherException"
    and neg: "check_cluster_status (kubectl_get_pods p) = Inr False"
      "check_cluster_status (kubectl_get_pods q) = Inr False"
  shows "check_cluster_status_realistic CalledProcessError = Inr False
    \<and> check_cluster_status_native CalledProcessError = Inr False
    \<and> processing_mode False = ''Single Node Processing''
    \<and> realistic_main (e\<lparr>kubectl_get_pods := k\<rparr>) = realistic_main (e\<lparr>kubectl_get_pods := k'\<rparr>)
    \<and> native_main (e'\<lparr>kubectl_get_pods := k\<rparr>) = native_main (e'\<lparr>kubectl_get_pods := k'\<rparr>)
    \<and> process_photos_main p = returned [] [] ClusterNotReady
    \<and> process_photos_simple_main q = returned [] [] ClusterNotReady"
proof -
  obtain b b' where b: "check_cluster_status_realistic k = Inr b"
    "check_cluster_status_realistic k' = Inr b'"
    using probe_realistic k by blast
  obtain c c' where c: "check_cluster_status_native k = Inr c"
    "check_cluster_status_native k' = Inr c'"
    using probe_native k by blast
  have "realistic_main (e\<lparr>kubectl_get_pods := k\<rparr>) = realistic_main (e\<lparr>kubectl_get_pods := k'\<rparr>)"
    by (simp add: realistic_main_def b create_session_folder_def Let_def
        process_photos_realistically_def)
  moreover have "native_main (e'\<lparr>kubectl_get_pods := k\<rparr>) = native_main (e'\<lparr>kubectl_get_pods := k'\<rparr>)"
    by (simp add: native_main_def c create_session_folder_def Let_def)
  moreover have "process_photos_main p = returned [] [] ClusterNotReady"
    by (simp add: process_photos_main_def neg)
  moreover have "process_photos_simple_main q = returned [] [] ClusterNotReady"
    by (simp add: process_photos_simple_main_def neg)
  ultimately show ?thesis
    by (simp add: check_cluster_status_realistic_def check_cluster_status_native_def
        processing_mode_def)
qed

theorem probe_advisory_or_guard_witness:
  "realistic_main \<lparr>nas_input_exists = True, now = ''20240101_120000'',
       photos = [''a.jpg'', ''b.jpg'', ''c.jpg''], kubectl_get_pods = CalledProcessError\<rparr>
   = realistic_main \<lparr>nas_input_exists = True, now = ''20240101_120000'',
       photos = [''a.jpg'', ''b.jpg'', ''c.jpg''],
       kubectl_get_pods = Stdout ''worker-1 Running worker-2 Running''\<rparr>
   \<and> process_photos_main \<lparr>nas_input_exists = True, now = ''20240101_120000'',
       photos = [''a.jpg'', ''b.jpg'', ''c.jpg''], kubectl_get_pods = CalledProcessError,
       powershell = Stdout []\<rparr> = returned [] [] ClusterNotReady"
  using probe_advisory_or_guard
    [of CalledProcessError "Stdout ''worker-1 Running worker-2 Running''"
        "\<lparr>nas_input_exists = True, now = ''20240101_120000'',
          photos = [''a.jpg'', ''b.jpg'', ''c.jpg''], kubectl_get_pods = CalledProcessError,
          powershell = Stdout []\<rparr>"
        "\<lparr>nas_input_exists = True, now = ''20240101_120000'',
          photos = [''a.jpg'', ''b.jpg'', ''c.jpg''], kubectl_get_pods = CalledProcessError\<rparr>"
        "\<lparr>nas_input_exists = True, now = ''20240101_120000'',
          photos = [''a.jpg'', ''b.jpg'', ''c.jpg''], kubectl_get_pods = CalledProcessError\<rparr>"]
  by (simp add: probe_negative)

lemma count_running_one: "count_sub ''Running'' ''coordinator 1/1 Running 0 5m'' = 1"
  by (simp add: count_sub.simps)

text \<open>
  C7 as stated fails: with one running pod (process-photos) or a failing status query
  (process-photos-simple), and three photos waiting, the run stops at the probe.
\<close>

theorem probe_aborts_process_photos:
  "result (process_photos_main \<lparr>nas_input_exists = True, now = ''20240101_120000'',
       photos = [''a.jpg'', ''b.jpg'', ''c.jpg''],
       kubectl_get_pods = Stdout ''coordinator 1/1 Running 0 5m'', powershell = Stdout []\<rparr>)
     = Inr ClusterNotReady
   \<and> effects (process_photos_main \<lparr>nas_input_exists = True, now = ''20240101_120000'',
       photos = [''a.jpg'', ''b.jpg'', ''c.jpg''],
       kubectl_get_pods = Stdout ''coordinator 1/1 Running 0 5m'', powershell = Stdout []\<rparr>) = []
   \<and> result (process_photos_simple_main \<lparr>nas_input_exists = True, now = ''20240101_120000'',
       photos = [''a.jpg'', ''b.jpg'', ''c.jpg''], kubectl_get_pods = CalledProcessError\<rparr>)
     = Inr ClusterNotReady
   \<and> steps (process_photos_simple_main \<lparr>nas_input_exists = True, now = ''20240101_120000'',
       photos = [''a.jpg'', ''b.jpg'', ''c.jpg''], kubectl_get_pods = CalledProcessError\<rparr>) = []"
  by (simp add: process_photos_main_def process_photos_simple_main_def check_cluster_status_def
      count_running_one returned_def)

section \<open>Lemmas on the interleaving of stop requests\<close>

lemma pipeline_step_unfold:
  "pipeline_step phs sp sn hc s =
     (if pc s < 6 then s\<lparr>pc := Suc (pc s), printed := printed s @ [realistic_steps ! pc s]\<rparr>
      else if pc s = 6 then
        s\<lparr>pc := 7,
          written := written s
            @ fst (create_realistic_output_files (length phs) sp
                     (snd (process_photos_realistically phs sp sn hc)))\<rparr>
      else s)"
  by (simp add: pipeline_step_def process_photos_realistically_def Let_def)

lemma pipeline_step_gui:
  "pipeline_step phs sp sn hc (s\<lparr>gui_started := g\<rparr>)
   = (pipeline_step phs sp sn hc s)\<lparr>gui_started := g\<rparr>"
  by (simp add: pipeline_step_unfold)

lemma exec_view_gui:
  "pipeline_view (exec phs sp sn hc evs (s\<lparr>gui_started := g\<rparr>))
   = pipeline_view (exec phs sp sn hc evs s)"
proof (induction evs arbitrary: s g)
  case Nil
  show ?case by (simp add: pipeline_view_def)
next
  case (Cons ev evs)
  show ?case
    by (cases ev) (simp_all add: Cons.IH pipeline_step_gui)
qed

lemma exec_view_filter:
  "pipeline_view (exec phs sp sn hc evs s)
   = pipeline_view (exec phs sp sn hc (filter is_pipeline_step evs) s)"
proof (induction evs arbitrary: s)
  case Nil
  show ?case by simp
next
  case (Cons ev evs)
  show ?case
    by (cases ev) (simp_all add: Cons is_pipeline_step_def exec_view_gui)
qed

lemma exec_append:
  "exec phs sp sn hc (xs @ ys) s = exec phs sp sn hc ys (exec phs sp sn hc xs s)"
proof (induction xs arbitrary: s)
  case Nil
  show ?case by simp
next
  case (Cons ev xs)
  show ?case by (cases ev) (simp_all add: Cons)
qed

lemma exec_finished: "pc s = 7 \<Longrightarrow> exec phs sp sn hc (replicate k PipelineStep) s = s"
  by (induction k) (simp_all add: pipeline_step_unfold)

lemma exec_seven:
  "exec phs sp sn hc (replicate 7 PipelineStep) sys_init
   = \<lparr>pc = 7, printed = realistic_steps,
      written = fst (create_realistic_output_files (length phs) sp
                  (snd (process_photos_realistically phs sp sn hc))),
      gui_started = []\<rparr>"
  by (simp add: eval_nat_numeral sys_init_def pipeline_step_unfold realistic_steps_def)

lemma filter_steps:
  "filter is_pipeline_step evs = replicate (length (filter is_pipeline_step evs)) PipelineStep"
  by (induction evs) (auto simp: is_pipeline_step_def)

lemma exec_all_steps:
  assumes "7 \<le> k"
  shows "exec phs sp sn hc (replicate k PipelineStep) sys_init
         = exec phs sp sn hc (replicate 7 PipelineStep) sys_init"
proof -
  have "replicate k PipelineStep = replicate 7 PipelineStep @ replicate (k - 7) PipelineStep"
    using assms by (simp flip: replicate_add)
  then show ?thesis
    by (simp add: exec_append exec_finished exec_seven)
qed

section \<open>Claim on cancellation\<close>

text \<open>
  C8, as the code has it. \<^verbatim>\<open>process_photos_realistically\<close> reads no cancellation flag and
  \<^verbatim>\<open>stop_workflows\<close> sets none: it only starts a command in a background thread of the
  control centre. However stop requests are interleaved with the steps of a run, the
  pipeline's steps, headings and storage operations are those of the run without any
  stop request; a run that is given its seven steps (six processing steps and the
  writing of the files) prints all six headings in order and writes the four output
  files.
\<close>

theorem stop_request_changes_nothing:
  assumes "7 \<le> length (filter is_pipeline_step evs)"
  shows "pipeline_view (exec phs sp sn hc evs' s)
         = pipeline_view (exec phs sp sn hc (filter is_pipeline_step evs') s)
    \<and> pc (exec phs sp sn hc evs sys_init) = 7
    \<and> printed (exec phs sp sn hc evs sys_init) = fst (process_photos_realistically phs sp sn hc)
    \<and> printed (exec phs sp sn hc evs sys_init) = realistic_steps
    \<and> written (exec phs sp sn hc evs sys_init)
        = fst (create_realistic_output_files (length phs) sp
                 (snd (process_photos_realistically phs sp sn hc)))"
proof -
  have "pipeline_view (exec phs sp sn hc evs sys_init)
        = pipeline_view (exec phs sp sn hc (replicate 7 PipelineStep) sys_init)"
    using exec_view_filter [of phs sp sn hc evs sys_init] filter_steps [of evs]
      exec_all_steps [OF assms, of phs sp sn hc] by simp
  then show ?thesis
    using exec_view_filter [of phs sp sn hc evs' s]
    by (simp add: pipeline_view_def exec_seven process_stats)
qed

text \<open>
  C8 as stated fails: a stop request between the third and the fourth step (stage indices
  \<open>2\<close> and \<open>3\<close>) of a run over one photo does not keep the fourth step from starting,
  and the four output files are written.
\<close>

theorem stop_between_steps_runs_on:
  "printed (exec [''IMG_0001.jpg''] (NAS_OUTPUT_BASE @ [''meshroom_session_20240101_120000''])
      ''meshroom_session_20240101_120000'' False
      [PipelineStep, PipelineStep, PipelineStep, StopWorkflows,
       PipelineStep, PipelineStep, PipelineStep, PipelineStep] sys_init)
   = [''Step 1/6: Camera Initialization'',
      ''Step 2/6: Feature Extraction'',
      ''Step 3/6: Image Matching'',
      ''Step 4/6: Structure from Motion (SfM)'',
      ''Step 5/6: Dense Point Cloud Generation'',
      ''Step 6/6: Mesh Creation & Texturing'']
   \<and> written (exec [''IMG_0001.jpg''] (NAS_OUTPUT_BASE @ [''meshroom_session_20240101_120000''])
      ''meshroom_session_20240101_120000'' False
      [PipelineStep, PipelineStep, PipelineStep, StopWorkflows,
       PipelineStep, PipelineStep, PipelineStep, PipelineStep] sys_init)
   = [WriteFile (NAS_OUTPUT_BASE @ [''meshroom_session_20240101_120000'', ''dense_pointcloud_1photos.ply'']),
      WriteFile (NAS_OUTPUT_BASE @ [''meshroom_session_20240101_120000'', ''textured_model_1photos.obj'']),
      WriteFile (NAS_OUTPUT_BASE @ [''meshroom_session_20240101_120000'', ''printable_model_1photos.stl'']),
      WriteFile (NAS_OUTPUT_BASE @ [''meshroom_session_20240101_120000'', ''processing_summary.txt''])]
   \<and> gui_started (exec [''IMG_0001.jpg''] (NAS_OUTPUT_BASE @ [''meshroom_session_20240101_120000''])
      ''meshroom_session_20240101_120000'' False
      [PipelineStep, PipelineStep, PipelineStep, StopWorkflows,
       PipelineStep, PipelineStep, PipelineStep, PipelineStep] sys_init)
   = [stop_command]"
  by (simp add: sys_init_def pipeline_step_unfold realistic_steps_def stop_workflows_def
      create_realistic_output_files_def process_stats Let_def str_nat.simps digit_char_def)

theorem stop_request_changes_nothing_witness:
  "printed (exec [''IMG_0001.jpg''] (NAS_OUTPUT_BASE @ [''meshroom_session_20240101_120000''])
      ''meshroom_session_20240101_120000'' False
      [PipelineStep, PipelineStep, StopWorkflows, PipelineStep, PipelineStep, PipelineStep,
       StopWorkflows, PipelineStep, PipelineStep] sys_init) = realistic_steps
   \<and> pc (exec [''IMG_0001.jpg''] (NAS_OUTPUT_BASE @ [''meshroom_session_20240101_120000''])
      ''meshroom_session_20240101_120000'' False
      [PipelineStep, PipelineStep, StopWorkflows, PipelineStep, PipelineStep, PipelineStep,
       StopWorkflows, PipelineStep, PipelineStep] sys_init) = 7"
proof -
  let ?evs = "[PipelineStep, PipelineStep, StopWorkflows, PipelineStep, PipelineStep, PipelineStep,
               StopWorkflows, PipelineStep, PipelineStep]"
  have h: "7 \<le> length (filter is_pipeline_step ?evs)"
    by (simp add: is_pipeline_step_def)
  show ?thesis
    using stop_request_changes_nothing
      [where evs = ?evs and evs' = "[]" and s = sys_init and phs = "[''IMG_0001.jpg'']"
         and sp = "NAS_OUTPUT_BASE @ [''meshroom_session_20240101_120000'']"
         and sn = "''meshroom_session_20240101_120000''" and hc = False, OF h]
    by (elim conjE) (intro conjI, assumption+)
qed

section \<open>Lemmas on the listing of sessions\<close>

lemma sort_reverse_sorted: "sorted (rev (map f (sort_reverse f xs)))"
  by (simp add: sort_reverse_def rev_map)

lemma sort_reverse_mset: "mset (sort_reverse f xs) = mset xs"
  by (simp add: sort_reverse_def)

lemma sort_reverse_stable:
  "filter (\<lambda>x. f x = k) (sort_reverse f xs) = filter (\<lambda>x. f x = k) xs"
proof -
  have "filter (\<lambda>x. f x = k) (sort_key f (rev xs)) = filter (\<lambda>x. f x = k) (rev xs)"
    by (rule sort_key_stable)
  then show ?thesis
    by (simp add: sort_reverse_def rev_filter [symmetric])
qed

lemma sort_reverse_descending:
  assumes "i < j" and "j < length (sort_reverse f xs)"
  shows "f (sort_reverse f xs ! j) \<le> f (sort_reverse f xs ! i)"
proof -
  let ?ys = "sort_reverse f xs"
  have "sorted_wrt (\<lambda>x y. y \<le> x) (map f ?ys)"
    using sort_reverse_sorted [of f xs] by (simp add: sorted_wrt_rev)
  then have "sorted_wrt (\<lambda>a b. f b \<le> f a) ?ys"
    by (simp add: sorted_wrt_map)
  then show ?thesis
    using assms by (simp add: sorted_wrt_iff_nth_less)
qed

lemma sort_reverse_later_key_first:
  assumes a: "a \<in> set xs" and b: "b \<in> set xs" and lt: "f a < f b"
  shows "\<exists>i j. i < j \<and> j < length (sort_reverse f xs)
          \<and> sort_reverse f xs ! i = b \<and> sort_reverse f xs ! j = a"
proof -
  let ?ys = "sort_reverse f xs"
  have s: "set ?ys = set xs" by (simp add: sort_reverse_def)
  obtain i where i: "i < length ?ys" "?ys ! i = b"
    using b s by (metis in_set_conv_nth)
  obtain j where j: "j < length ?ys" "?ys ! j = a"
    using a s by (metis in_set_conv_nth)
  have "i \<noteq> j" using i j lt by auto
  moreover have "\<not> j < i"
  proof
    assume "j < i"
    then have "f (?ys ! i) \<le> f (?ys ! j)"
      using i(1) by (rule sort_reverse_descending)
    then show False using i j lt by simp
  qed
  ultimately have "i < j" by simp
  then show ?thesis using i j by blast
qed

lemma collect_sessions_readable:
  assumes "\<forall>d \<in> set ds. is_session_dir d \<longrightarrow> entry_mtime d \<noteq> None"
  shows "collect_sessions fmt ds = Some (map (session_of fmt) (filter is_session_dir ds))"
  using assms by (induction ds) (auto simp: session_of_def)

lemma collect_sessions_None:
  assumes "d \<in> set ds" "is_session_dir d" "entry_mtime d = None"
  shows "collect_sessions fmt ds = None"
  using assms by (induction ds) (auto split: option.splits)

lemma listing_readable:
  assumes "base_exists e" and "base_listing e = Some ds"
    and "\<forall>d \<in> set ds. is_session_dir d \<longrightarrow> entry_mtime d \<noteq> None"
  shows "list_previous_sessions e
         = sort_reverse sess_date (map (session_of (strftime e)) (filter is_session_dir ds))"
  by (simp add: list_previous_sessions_def assms(1,2) collect_sessions_readable [OF assms(3)])

lemma listing_empty:
  assumes "\<not> base_exists e \<or> base_listing e = None
     \<or> (base_listing e = Some ds \<and> (\<exists>d \<in> set ds. is_session_dir d \<and> entry_mtime d = None))"
  shows "list_previous_sessions e = []"
  using assms collect_sessions_None [of _ ds "strftime e"]
  by (auto simp: list_previous_sessions_def)

section \<open>Claim on the listing of sessions\<close>

text \<open>
  C9, as the code has it. \<^verbatim>\<open>list_previous_sessions\<close> never raises. When the output
  directory exists and can be listed and the modification time of every session directory
  can be read, it returns one entry per session directory, dated with the formatted
  modification time of that directory (resolution one second), and ordered by that date,
  newest date first: of two sessions with different dates the one with the later date
  comes first, and sessions with the same date keep the order of the directory listing.
  A session directory whose content cannot be listed is not skipped: it is returned with
  a file count of \<open>0\<close>. When the output directory is missing or cannot be listed, or the
  modification time of some session directory cannot be read, the result is the empty
  list.
\<close>

theorem sessions_newest_date_first:
  "(base_exists e \<and> base_listing e = Some ds
      \<and> (\<forall>d \<in> set ds. is_session_dir d \<longrightarrow> entry_mtime d \<noteq> None) \<longrightarrow>
      list_previous_sessions e
        = sort_reverse sess_date (map (session_of (strftime e)) (filter is_session_dir ds))
      \<and> mset (list_previous_sessions e)
          = mset (map (session_of (strftime e)) (filter is_session_dir ds))
      \<and> sorted (rev (map sess_date (list_previous_sessions e)))
      \<and> (\<forall>d \<in> set ds. \<forall>d' \<in> set ds.
            is_session_dir d \<and> is_session_dir d'
            \<and> strftime e (the (entry_mtime d)) < strftime e (the (entry_mtime d')) \<longrightarrow>
            (\<exists>i j. i < j \<and> j < length (list_previous_sessions e)
               \<and> list_previous_sessions e ! i = session_of (strftime e) d'
               \<and> list_previous_sessions e ! j = session_of (strftime e) d))
      \<and> (\<forall>k. filter (\<lambda>s. sess_date s = k) (list_previous_sessions e)
             = filter (\<lambda>s. sess_date s = k)
                 (map (session_of (strftime e)) (filter is_session_dir ds)))
      \<and> (\<forall>d \<in> set ds. is_session_dir d \<and> entry_listing d = None \<longrightarrow>
            session_of (strftime e) d \<in> set (list_previous_sessions e)
            \<and> sess_files (session_of (strftime e) d) = 0))
   \<and> (\<not> base_exists e \<or> base_listing e = None
      \<or> (base_listing e = Some ds \<and> (\<exists>d \<in> set ds. is_session_dir d \<and> entry_mtime d = None)) \<longrightarrow>
      list_previous_sessions e = [])"
proof (intro conjI impI)
  assume "\<not> base_exists e \<or> base_listing e = None
     \<or> (base_listing e = Some ds \<and> (\<exists>d \<in> set ds. is_session_dir d \<and> entry_mtime d = None))"
  then show "list_previous_sessions e = []" by (rule listing_empty)
next
  assume a: "base_exists e \<and> base_listing e = Some ds
      \<and> (\<forall>d \<in> set ds. is_session_dir d \<longrightarrow> entry_mtime d \<noteq> None)"
  let ?found = "map (session_of (strftime e)) (filter is_session_dir ds)"
  show l: "list_previous_sessions e = sort_reverse sess_date ?found"
    using a by (intro listing_readable) auto
  show "mset (list_previous_sessions e) = mset ?found"
    unfolding l by (rule sort_reverse_mset)
  show "sorted (rev (map sess_date (list_previous_sessions e)))"
    unfolding l by (rule sort_reverse_sorted)
  show "\<forall>k. filter (\<lambda>s. sess_date s = k) (list_previous_sessions e)
             = filter (\<lambda>s. sess_date s = k) ?found"
    unfolding l by (simp add: sort_reverse_stable)
  show "\<forall>d \<in> set ds. \<forall>d' \<in> set ds.
            is_session_dir d \<and> is_session_dir d'
            \<and> strftime e (the (entry_mtime d)) < strftime e (the (entry_mtime d')) \<longrightarrow>
            (\<exists>i j. i < j \<and> j < length (list_previous_sessions e)
               \<and> list_previous_sessions e ! i = session_of (strftime e) d'
               \<and> list_previous_sessions e ! j = session_of (strftime e) d)"
  proof (intro ballI impI)
    fix d d' assume d: "d \<in> set ds" "d' \<in> set ds"
      and h: "is_session_dir d \<and> is_session_dir d'
            \<and> strftime e (the (entry_mtime d)) < strftime e (the (entry_mtime d'))"
    have "session_of (strftime e) d \<in> set ?found" "session_of (strftime e) d' \<in> set ?found"
      using d h by auto
    moreover have "sess_date (session_of (strftime e) d) < sess_date (session_of (strftime e) d')"
      using h by (simp add: session_of_def)
    ultimately show "\<exists>i j. i < j \<and> j < length (list_previous_sessions e)
               \<and> list_previous_sessions e ! i = session_of (strftime e) d'
               \<and> list_previous_sessions e ! j = session_of (strftime e) d"
      unfolding l by (rule sort_reverse_later_key_first)
  qed
  show "\<forall>d \<in> set ds. is_session_dir d \<and> entry_listing d = None \<longrightarrow>
            session_of (strftime e) d \<in> set (list_previous_sessions e)
            \<and> sess_files (session_of (strftime e) d) = 0"
    unfolding l by (auto simp: sort_reverse_def session_of_def file_count_def)
qed


theorem sessions_newest_date_first_witness:
  "list_previous_sessions
     \<lparr>base_exists = True,
      base_listing = Some
        [\<lparr>entry_name = ''meshroom_session_20240101_120000'', entry_is_dir = True,
           entry_mtime = Some 1704110400500, entry_listing = None\<rparr>,
         \<lparr>entry_name = ''notes.txt'', entry_is_dir = False,
           entry_mtime = Some 1704190000000, entry_listing = None\<rparr>,
         \<lparr>entry_name = ''meshroom_session_20240102_093000'', entry_is_dir = True,
           entry_mtime = Some 1704187800250,
           entry_listing = Some [(''model.ply'', True), (''temp'', False)]\<rparr>],
      strftime = (\<lambda>t. if t div 1000 = 1704110400 then ''2024-01-01 12:00:00''
                        else if t div 1000 = 1704187800 then ''2024-01-02 09:30:00''
                        else ''1970-01-01 00:00:00'')\<rparr>
   = [\<lparr>sess_name = ''meshroom_session_20240102_093000'',
       sess_path = NAS_OUTPUT_BASE @ [''meshroom_session_20240102_093000''],
       sess_date = ''2024-01-02 09:30:00'', sess_files = 1\<rparr>,
      \<lparr>sess_name = ''meshroom_session_20240101_120000'',
       sess_path = NAS_OUTPUT_BASE @ [''meshroom_session_20240101_120000''],
       sess_date = ''2024-01-01 12:00:00'', sess_files = 0\<rparr>]
   \<and> list_previous_sessions
     \<lparr>base_exists = True,
      base_listing = Some
        [\<lparr>entry_name = ''meshroom_session_20240101_120000'', entry_is_dir = True,
           entry_mtime = Some 1704110400500, entry_listing = None\<rparr>,
         \<lparr>entry_name = ''meshroom_session_20240102_093000'', entry_is_dir = True,
           entry_mtime = None, entry_listing = Some [(''model.ply'', True)]\<rparr>],
      strftime = (\<lambda>t. ''2024-01-01 12:00:00'')\<rparr>
   = []"
proof -
  let ?old = "\<lparr>entry_name = ''meshroom_session_20240101_120000'', entry_is_dir = True,
           entry_mtime = Some 1704110400500, entry_listing = None\<rparr>"
  let ?other = "\<lparr>entry_name = ''notes.txt'', entry_is_dir = False,
           entry_mtime = Some 1704190000000, entry_listing = None :: (string \<times> bool) list option\<rparr>"
  let ?new = "\<lparr>entry_name = ''meshroom_session_20240102_093000'', entry_is_dir = True,
           entry_mtime = Some 1704187800250,
           entry_listing = Some [(''model.ply'', True), (''temp'', False)]\<rparr>"
  let ?bad = "\<lparr>entry_name = ''meshroom_session_20240102_093000'', entry_is_dir = True,
           entry_mtime = None :: nat option, entry_listing = Some [(''model.ply'', True)]\<rparr>"
  let ?fmt = "\<lambda>t::nat. if t div 1000 = 1704110400 then ''2024-01-01 12:00:00''
                        else if t div 1000 = 1704187800 then ''2024-01-02 09:30:00''
                        else ''1970-01-01 00:00:00''"
  let ?e = "\<lparr>base_exists = True, base_listing = Some [?old, ?other, ?new], strftime = ?fmt\<rparr>"
  let ?e' = "\<lparr>base_exists = True, base_listing = Some [?old, ?bad],
              strftime = (\<lambda>t::nat. ''2024-01-01 12:00:00'')\<rparr>"
  have s: "is_session_dir ?old" "\<not> is_session_dir ?other" "is_session_dir ?new" "is_session_dir ?bad"
    by (simp_all add: is_session_dir_def startswith_def)
  have "base_exists ?e \<and> base_listing ?e = Some [?old, ?other, ?new]
      \<and> (\<forall>d \<in> set [?old, ?other, ?new]. is_session_dir d \<longrightarrow> entry_mtime d \<noteq> None)"
    by simp
  then have "list_previous_sessions ?e
     = sort_reverse sess_date (map (session_of ?fmt) (filter is_session_dir [?old, ?other, ?new]))"
    using sessions_newest_date_first [of ?e "[?old, ?other, ?new]"] by simp
  moreover have "''2024-01-01 12:00:00'' \<le> ''2024-01-02 09:30:00''"
    "\<not> ''2024-01-02 09:30:00'' \<le> ''2024-01-01 12:00:00''"
    by (simp_all add: less_eq_char_def less_char_def)
  ultimately have one: "list_previous_sessions ?e
     = [\<lparr>sess_name = ''meshroom_session_20240102_093000'',
         sess_path = NAS_OUTPUT_BASE @ [''meshroom_session_20240102_093000''],
         sess_date = ''2024-01-02 09:30:00'', sess_files = 1\<rparr>,
        \<lparr>sess_name = ''meshroom_session_20240101_120000'',
         sess_path = NAS_OUTPUT_BASE @ [''meshroom_session_20240101_120000''],
         sess_date = ''2024-01-01 12:00:00'', sess_files = 0\<rparr>]"
    by (simp add: s sort_reverse_def session_of_def file_count_def)
  have "base_listing ?e' = Some [?old, ?bad]
      \<and> (\<exists>d \<in> set [?old, ?bad]. is_session_dir d \<and> entry_mtime d = None)"
    using s(4) by simp
  then have two: "list_previous_sessions ?e' = []"
    using sessions_newest_date_first [of ?e' "[?old, ?bad]"] by blast
  show ?thesis using one two by simp
qed


text \<open>
  C9 as stated fails: of two sessions modified within the same second, the older one,
  listed first by the directory and unreadable, comes first in the result and is not
  skipped.
\<close>

theorem unreadable_kept_and_older_first:
  "list_previous_sessions
     \<lparr>base_exists = True,
      base_listing = Some
        [\<lparr>entry_name = ''meshroom_session_20240101_120000'', entry_is_dir = True,
           entry_mtime = Some 1704110405200, entry_listing = None\<rparr>,
         \<lparr>entry_name = ''meshroom_session_20240101_120005'', entry_is_dir = True,
           entry_mtime = Some 1704110405700, entry_listing = Some [(''model.ply'', True)]\<rparr>],
      strftime = (\<lambda>t. if t div 1000 = 1704110405 then ''2024-01-01 12:00:05''
                        else ''1970-01-01 00:00:00'')\<rparr>
   = [\<lparr>sess_name = ''meshroom_session_20240101_120000'',
       sess_path = NAS_OUTPUT_BASE @ [''meshroom_session_20240101_120000''],
       sess_date = ''2024-01-01 12:00:05'', sess_files = 0\<rparr>,
      \<lparr>sess_name = ''meshroom_session_20240101_120005'',
       sess_path = NAS_OUTPUT_BASE @ [''meshroom_session_20240101_120005''],
       sess_date = ''2024-01-01 12:00:05'', sess_files = 1\<rparr>]"
  by (simp add: list_previous_sessions_def is_session_dir_def startswith_def file_count_def
      sort_reverse_def)

end
